theory Spec2Isabelle
  imports Main
begin

section \<open>Shared data model\<close>

text \<open>
  Exceptions of the Python source become values. \<open>TritonModelAnalyzerException\<close> is
  raised by the source itself; the others are the interpreter's own (indexing an empty
  list, iterating or subscripting \<open>None\<close>, a failed \<open>assert\<close>, a missing
  dictionary key, a method call on \<open>None\<close>).
\<close>

datatype error =
    TritonModelAnalyzerException
  | IndexError
  | TypeError
  | AssertionError
  | KeyError
  | AttributeError

text \<open>The outcome of a call that mutates the object: it returns or it raises.\<close>

datatype outcome = Returned | Raised error

text \<open>
  A server environment is an opaque key-value mapping (a Python dict); dict inequality
  \<open>!=\<close> is inequality of maps.
\<close>

type_synonym triton_env = "string \<rightharpoonup> string"

text \<open>
  A Measurement is produced outside the generators. The only thing the source reads from
  it is \<open>get_non_gpu_metric_value("perf_throughput")\<close>; the metric is kept as an
  opaque number that is stored, never computed with.
\<close>

datatype measurement = Measurement (perf_throughput: int)

text \<open>
  The argument of \<open>set_last_results\<close>: \<open>None\<close>, or a list whose elements are
  Measurements or \<open>None\<close> (a failed run).
\<close>

type_synonym measurements = "measurement option list option"

text \<open>Values of perf-analyzer parameters and of dimension tables: text or a number.\<close>

datatype pa_value = Str string | Num int

text \<open>
  \<open>ConfigModelProfileSpec\<close>: the three accessors the generators call.
  \<open>perf_analyzer_flags()\<close> is a dict, kept as an association list.
\<close>

record model =
  model_name :: string
  triton_server_environment :: triton_env
  perf_analyzer_flags :: "(string \<times> pa_value) list"

text \<open>
  \<open>RunConfig(triton_env)\<close> followed by \<open>add_model_run_config\<close> calls: the
  environment and the ModelRunConfigs in the order they were added.
\<close>

datatype 'a run_config = RunConfig (rc_triton_env: triton_env) (model_run_configs: "'a list")

definition add_model_run_config :: "'a \<Rightarrow> 'a run_config \<Rightarrow> 'a run_config" where
  "add_model_run_config mrc rc = RunConfig (rc_triton_env rc) (model_run_configs rc @ [mrc])"

section \<open>\<open>RunConfigGenerator.determine_triton_server_env\<close>\<close>

text \<open>
  The loop of \<open>determine_triton_server_env\<close>: the first model whose environment
  differs from \<open>triton_env\<close> raises; otherwise \<open>triton_env\<close> is returned.
\<close>

fun env_loop :: "triton_env \<Rightarrow> model list \<Rightarrow> error + triton_env" where
  "env_loop triton_env [] = Inr triton_env"
| "env_loop triton_env (m # rest) =
     (if triton_server_environment m \<noteq> triton_env then Inl TritonModelAnalyzerException
      else env_loop triton_env rest)"

text \<open>\<open>models[0]\<close> raises IndexError on the empty list.\<close>

definition determine_triton_server_env :: "model list \<Rightarrow> error + triton_env" where
  "determine_triton_server_env models =
     (case models of
        [] \<Rightarrow> Inl IndexError
      | m0 # _ \<Rightarrow> env_loop (triton_server_environment m0) models)"

section \<open>The composite enumerator: \<open>RunConfigGenerator\<close>\<close>

subsection \<open>The per-model sub-enumerator\<close>

text \<open>
  What \<open>config\<close>, \<open>gpus\<close> and \<open>client\<close> determine for the sub-enumerators: for
  each model its default configuration and the list of its legal configurations. The
  type \<open>'c\<close> is the ModelRunConfig a sub-enumerator yields.
\<close>

record 'c profile_config =
  default_configuration :: "model \<Rightarrow> 'c"
  legal_configurations :: "model \<Rightarrow> 'c list"

text \<open>
  Modelled from the spec: \<open>ModelRunConfigGenerator\<close> (the class is not among the
  sources). The spec describes it as a finite lazy sequence of configurations,
  parameterised by a default-only flag: restricted to defaults it yields exactly one
  configuration, otherwise it yields all legal configurations. It accepts feedback
  through \<open>set_last_results\<close>; the model keeps the feedback it received, in order.
\<close>

record 'c ModelRunConfigGenerator =
  mrcg_config :: "'c profile_config"
  mrcg_model :: model
  mrcg_default_only :: bool
  mrcg_received :: "measurement option list list"

definition new_ModelRunConfigGenerator ::
  "'c profile_config \<Rightarrow> model \<Rightarrow> bool \<Rightarrow> 'c ModelRunConfigGenerator" where
  "new_ModelRunConfigGenerator cfg m default_only =
     \<lparr>mrcg_config = cfg, mrcg_model = m, mrcg_default_only = default_only, mrcg_received = []\<rparr>"

definition mrcg_get_configs :: "'c ModelRunConfigGenerator \<Rightarrow> 'c list" where
  "mrcg_get_configs g =
     (if mrcg_default_only g then [default_configuration (mrcg_config g) (mrcg_model g)]
      else legal_configurations (mrcg_config g) (mrcg_model g))"

definition mrcg_set_last_results ::
  "measurement option list \<Rightarrow> 'c ModelRunConfigGenerator \<Rightarrow> 'c ModelRunConfigGenerator" where
  "mrcg_set_last_results ms g = g\<lparr>mrcg_received := mrcg_received g @ [ms]\<rparr>"

subsection \<open>State of the enumerator\<close>

text \<open>
  What an observer of one traversal sees, in order: a sub-enumerator is created for a
  depth, a sub-enumerator is asked for its next configuration (with the content of that
  depth's feedback buffer at that moment), a RunConfig is yielded to the consumer, the
  consumer calls \<open>set_last_results\<close>, a depth's buffer is forwarded to its
  sub-enumerator. The generator writes the log and never reads it; the model reads it
  only to number the RunConfigs for the consumer.
\<close>

datatype 'c event =
    Created nat bool
  | Asked nat "measurement option list"
  | Yielded "'c option run_config"
  | Supplied measurements
  | Forwarded nat "measurement option list"

text \<open>
  The attributes \<open>__init__\<close> sets and the methods mutate. \<open>self._models\<close> is never
  reassigned and is passed to the methods as a parameter. \<open>rcg_failure\<close> holds the
  exception that aborted the traversal, if any.
\<close>

record 'c rcg_state =
  rcg_config :: "'c profile_config"
  rcg_triton_env :: triton_env
  rcg_num_models :: nat
  curr_model_run_configs :: "'c option list"
  curr_results :: "measurement option list list"
  curr_generators :: "'c ModelRunConfigGenerator option list"
  default_returned :: bool
  rcg_failure :: "error option"
  rcg_log :: "'c event list"

definition RunConfigGenerator_init ::
  "'c profile_config \<Rightarrow> model list \<Rightarrow> error + 'c rcg_state" where
  "RunConfigGenerator_init cfg models =
     (case determine_triton_server_env models of
        Inl e \<Rightarrow> Inl e
      | Inr env \<Rightarrow>
          Inr \<lparr>rcg_config = cfg,
               rcg_triton_env = env,
               rcg_num_models = length models,
               curr_model_run_configs = replicate (length models) None,
               curr_results = replicate (length models) [],
               curr_generators = replicate (length models) None,
               default_returned = False,
               rcg_failure = None,
               rcg_log = []\<rparr>)"

definition record_event :: "'c event \<Rightarrow> 'c rcg_state \<Rightarrow> 'c rcg_state" where
  "record_event e s = s\<lparr>rcg_log := rcg_log s @ [e]\<rparr>"

definition rcg_raise :: "error \<Rightarrow> 'c rcg_state \<Rightarrow> 'c rcg_state" where
  "rcg_raise e s = s\<lparr>rcg_failure := Some e\<rparr>"

text \<open>The RunConfigs yielded so far.\<close>

fun yielded_of :: "'c event list \<Rightarrow> 'c option run_config list" where
  "yielded_of [] = []"
| "yielded_of (Yielded rc # es) = rc # yielded_of es"
| "yielded_of (_ # es) = yielded_of es"

subsection \<open>\<open>set_last_results\<close>\<close>

text \<open>
  \<open>for index in range(self._num_models): self._curr_results[index].extend(measurements)\<close>.
  Extending by \<open>None\<close> raises TypeError at the first index, before anything changed;
  an index beyond the buffer list raises IndexError after the earlier buffers were
  extended.
\<close>

fun extend_results ::
  "measurement option list \<Rightarrow> nat list \<Rightarrow> 'c rcg_state \<Rightarrow> outcome \<times> 'c rcg_state" where
  "extend_results ms [] s = (Returned, s)"
| "extend_results ms (index # rest) s =
     (if index < length (curr_results s)
      then extend_results ms rest
             (s\<lparr>curr_results := (curr_results s)[index := curr_results s ! index @ ms]\<rparr>)
      else (Raised IndexError, s))"

definition rcg_set_last_results ::
  "measurements \<Rightarrow> 'c rcg_state \<Rightarrow> outcome \<times> 'c rcg_state" where
  "rcg_set_last_results measurements s =
     (case measurements of
        None \<Rightarrow> (if rcg_num_models s = 0 then (Returned, s) else (Raised TypeError, s))
      | Some ms \<Rightarrow> extend_results ms [0..<rcg_num_models s] s)"

subsection \<open>The traversal\<close>

text \<open>
  \<open>_make_run_config\<close>: a RunConfig with the environment and, for each index of
  \<open>self._models\<close>, the current entry of \<open>_curr_model_run_configs\<close> (which may still
  be \<open>None\<close>).
\<close>

definition make_run_config :: "model list \<Rightarrow> 'c rcg_state \<Rightarrow> 'c option run_config" where
  "make_run_config models s =
     fold (\<lambda>index rc. add_model_run_config (curr_model_run_configs s ! index) rc)
          [0..<length models] (RunConfig (rcg_triton_env s) [])"

text \<open>
  \<open>_send_results_to_generator\<close>: the buffer of \<open>index\<close> goes to the sub-enumerator
  of \<open>index\<close>, then the buffer is replaced by an empty list.
\<close>

definition send_results_to_generator :: "nat \<Rightarrow> 'c rcg_state \<Rightarrow> 'c rcg_state" where
  "send_results_to_generator index s =
     (if length (curr_generators s) \<le> index \<or> length (curr_results s) \<le> index
      then rcg_raise IndexError s
      else case curr_generators s ! index of
             None \<Rightarrow> rcg_raise AttributeError s
           | Some g \<Rightarrow>
               record_event (Forwarded index (curr_results s ! index))
                 (s\<lparr>curr_generators :=
                      (curr_generators s)[index :=
                         Some (mrcg_set_last_results (curr_results s ! index) g)],
                    curr_results := (curr_results s)[index := []]\<rparr>))"

text \<open>
  A \<open>yield\<close>: the RunConfig goes to the consumer, and the generator is suspended
  until the next pull. In between the consumer calls \<open>set_last_results\<close>; the
  consumer is a function from the number of the RunConfig (counted from 0) to the
  arguments of the calls it makes after receiving it. An exception of such a call is
  the consumer's own and leaves the generator as it is.
\<close>

type_synonym consumer = "nat \<Rightarrow> measurements list"

definition consumer_call :: "measurements \<Rightarrow> 'c rcg_state \<Rightarrow> 'c rcg_state" where
  "consumer_call ms s = snd (rcg_set_last_results ms (record_event (Supplied ms) s))"

definition yield_run_config :: "consumer \<Rightarrow> 'c option run_config \<Rightarrow> 'c rcg_state \<Rightarrow> 'c rcg_state" where
  "yield_run_config consumer rc s =
     fold consumer_call (consumer (length (yielded_of (rcg_log s))))
          (record_event (Yielded rc) s)"

text \<open>
  The content of the buffer of a depth, for the log (an empty list for a depth that has
  no buffer).
\<close>

definition buffer_at :: "nat \<Rightarrow> 'c rcg_state \<Rightarrow> measurement option list" where
  "buffer_at index s = (if index < length (curr_results s) then curr_results s ! index else [])"

text \<open>
  \<open>_generate_subset\<close>. The \<open>for\<close> loop asks the sub-enumerator for a configuration
  at the start of every iteration and once more when the sequence is exhausted. An
  exception aborts the traversal.
\<close>

function generate_subset ::
  "consumer \<Rightarrow> model list \<Rightarrow> nat \<Rightarrow> bool \<Rightarrow> 'c rcg_state \<Rightarrow> 'c rcg_state" where
  "generate_subset consumer models index default_only s =
     (if length models \<le> index \<or> length (curr_generators s) \<le> index
      then rcg_raise IndexError s
      else
        let mrcg = new_ModelRunConfigGenerator (rcg_config s) (models ! index) default_only;
            s1 = record_event (Created index default_only)
                   (s\<lparr>curr_generators := (curr_generators s)[index := Some mrcg]\<rparr>);
            s4 = fold (\<lambda>model_run_config s'.
                         if rcg_failure s' \<noteq> None then s'
                         else if length (curr_model_run_configs s') \<le> index
                         then rcg_raise IndexError s'
                         else
                           let s2 = (record_event (Asked index (buffer_at index s')) s')
                                      \<lparr>curr_model_run_configs :=
                                         (curr_model_run_configs s')[index := Some model_run_config]\<rparr>;
                               s3 = (if index = length models - 1
                                     then yield_run_config consumer (make_run_config models s2) s2
                                     else generate_subset consumer models (index + 1) default_only s2)
                           in if rcg_failure s3 \<noteq> None then s3
                              else send_results_to_generator index s3)
                      (mrcg_get_configs mrcg) s1
        in if rcg_failure s4 \<noteq> None then s4
           else record_event (Asked index (buffer_at index s4)) s4)"
  by pat_completeness auto
termination
  by (relation "measure (\<lambda>(consumer, models, index, default_only, s). length models - index)") auto

text \<open>\<open>_get_next_config\<close>, which is all \<open>get_configs\<close> delegates to.\<close>

definition get_next_config :: "consumer \<Rightarrow> model list \<Rightarrow> 'c rcg_state \<Rightarrow> 'c rcg_state" where
  "get_next_config consumer models s =
     (let s1 = generate_subset consumer models 0 True s
      in if rcg_failure s1 \<noteq> None then s1
         else generate_subset consumer models 0 False (s1\<lparr>default_returned := True\<rparr>))"

definition rcg_get_configs :: "consumer \<Rightarrow> model list \<Rightarrow> 'c rcg_state \<Rightarrow> 'c rcg_state" where
  "rcg_get_configs consumer models s = get_next_config consumer models s"

text \<open>
  Construction followed by a complete traversal: the exception of the constructor, or
  the final state with its log.
\<close>

definition run_RunConfigGenerator ::
  "'c profile_config \<Rightarrow> model list \<Rightarrow> consumer \<Rightarrow> error + 'c rcg_state" where
  "run_RunConfigGenerator cfg models consumer =
     (case RunConfigGenerator_init cfg models of
        Inl e \<Rightarrow> Inl e
      | Inr s \<Rightarrow> Inr (rcg_get_configs consumer models s))"

section \<open>The hill-climbing driver: \<open>UndirectedRunConfigGenerator\<close>\<close>

subsection \<open>Coordinates and coordinate data\<close>

text \<open>
  A Coordinate is an immutable vector of non-negative integers, compared by value.
\<close>

type_synonym coordinate = "nat list"

text \<open>
  Modelled from the spec: \<open>CoordinateData\<close> (the class is not among the sources).
  The spec describes it as a mapping from Coordinate to a visit count (an integer,
  \<open>0\<close> for a coordinate never visited) and an optional throughput (unknown until
  measured). The four methods the driver calls read or write one entry.
\<close>

record coordinate_data =
  visit_counts :: "coordinate \<Rightarrow> nat"
  throughputs :: "coordinate \<rightharpoonup> int"

definition new_CoordinateData :: coordinate_data where
  "new_CoordinateData = \<lparr>visit_counts = (\<lambda>_. 0), throughputs = Map.empty\<rparr>"

definition get_visit_count :: "coordinate_data \<Rightarrow> coordinate \<Rightarrow> nat" where
  "get_visit_count cd c = visit_counts cd c"

definition increment_visit_count :: "coordinate \<Rightarrow> coordinate_data \<Rightarrow> coordinate_data" where
  "increment_visit_count c cd = cd\<lparr>visit_counts := (visit_counts cd)(c := visit_counts cd c + 1)\<rparr>"

definition get_throughput :: "coordinate_data \<Rightarrow> coordinate \<Rightarrow> int option" where
  "get_throughput cd c = throughputs cd c"

definition set_throughput :: "coordinate \<Rightarrow> int \<Rightarrow> coordinate_data \<Rightarrow> coordinate_data" where
  "set_throughput c t cd = cd\<lparr>throughputs := (throughputs cd)(c \<mapsto> t)\<rparr>"

subsection \<open>Collaborators taken as parameters\<close>

text \<open>
  A Neighborhood object is built from a neighborhood configuration, the coordinate data
  and a center. The coordinate data is shared with the driver (the same object), so the
  model keeps the configuration and the center and hands the driver's current
  coordinate data to every method.
\<close>

datatype 'nc neighborhood = Neighborhood (nbhd_config: 'nc) (nbhd_center: coordinate)

text \<open>The dictionary literal \<open>param_combo\<close> of \<open>_get_next_model_config\<close>.\<close>

record instance_group =
  ig_count :: pa_value
  ig_kind :: string
  ig_rate_limiter_priority :: int

record param_combo =
  pc_dynamic_batching :: "(string \<times> pa_value) list"
  pc_max_batch_size :: pa_value
  pc_instance_group :: "instance_group list"

text \<open>
  The classes the driver calls and the sources do not contain, as parameters; every
  theorem below holds for all of them.
  \<^item> \<open>SearchConfig\<close>: \<open>get_min_indexes\<close>, \<open>get_radius\<close>, \<open>get_step_magnitude\<close>,
    \<open>get_neighborhood_config\<close> (with or without a radius) and
    \<open>get_dimensions().get_values_for_coordinate\<close>, which maps a coordinate to a
    dictionary from model number to a dictionary of dimension values, or raises.
  \<^item> \<open>Neighborhood\<close>: the four methods the driver calls, as functions of the
    neighborhood and the shared coordinate data.
  \<^item> \<open>ModelVariantNameManager()\<close>, \<open>BaseModelConfigGenerator.make_model_config\<close>
    (which may update the name manager), \<open>ModelConfig.get_field('name')\<close>,
    \<open>PerfAnalyzerConfig()\<close> and \<open>PerfAnalyzerConfig.update_config\<close>.
\<close>

record ('nc, 'mc, 'pac, 'vnm) collaborators =
  sc_get_min_indexes :: "nat list"
  sc_get_radius :: int
  sc_get_step_magnitude :: int
  sc_get_neighborhood_config :: "int option \<Rightarrow> 'nc"
  sc_get_values_for_coordinate ::
    "coordinate option \<Rightarrow> error + (nat \<rightharpoonup> (string \<rightharpoonup> pa_value))"
  nbhd_enough_coordinates_initialized :: "'nc neighborhood \<Rightarrow> coordinate_data \<Rightarrow> bool"
  nbhd_calculate_new_coordinate :: "'nc neighborhood \<Rightarrow> coordinate_data \<Rightarrow> int \<Rightarrow> coordinate"
  nbhd_pick_coordinate_to_initialize :: "'nc neighborhood \<Rightarrow> coordinate_data \<Rightarrow> coordinate option"
  nbhd_get_nearest_unvisited_neighbor ::
    "'nc neighborhood \<Rightarrow> coordinate_data \<Rightarrow> coordinate option \<Rightarrow> coordinate option"
  new_ModelVariantNameManager :: 'vnm
  make_model_config :: "param_combo \<Rightarrow> model \<Rightarrow> 'vnm \<Rightarrow> 'mc \<times> 'vnm"
  get_field_name :: "'mc \<Rightarrow> string"
  new_PerfAnalyzerConfig :: 'pac
  update_config :: "(string \<times> pa_value) list \<Rightarrow> 'pac \<Rightarrow> 'pac"

datatype ('mc, 'pac) model_run_config =
  ModelRunConfig (mrc_model_name: string) (mrc_model_config: 'mc) (mrc_perf_config: 'pac)

subsection \<open>State and construction\<close>

text \<open>
  The attributes the methods mutate. \<open>self._models\<close> and the collaborators are never
  reassigned and are parameters of the methods.
\<close>

record ('nc, 'vnm) urcg_state =
  variant_name_manager :: 'vnm
  urcg_triton_env :: triton_env
  coordinate_data :: coordinate_data
  current_coordinate :: coordinate
  coordinate_to_measure :: "coordinate option"
  radius_offset :: int
  magnitude_offset :: int
  neighborhood :: "'nc neighborhood"
  generator_started :: bool
  urcg_done :: bool

definition get_starting_coordinate :: "('nc, 'mc, 'pac, 'vnm) collaborators \<Rightarrow> coordinate" where
  "get_starting_coordinate K = sc_get_min_indexes K"

definition UndirectedRunConfigGenerator_init ::
  "('nc, 'mc, 'pac, 'vnm) collaborators \<Rightarrow> model list \<Rightarrow> error + ('nc, 'vnm) urcg_state" where
  "UndirectedRunConfigGenerator_init K models =
     (case determine_triton_server_env models of
        Inl e \<Rightarrow> Inl e
      | Inr env \<Rightarrow>
          Inr \<lparr>variant_name_manager = new_ModelVariantNameManager K,
               urcg_triton_env = env,
               coordinate_data = new_CoordinateData,
               current_coordinate = get_starting_coordinate K,
               coordinate_to_measure = Some (get_starting_coordinate K),
               radius_offset = 0,
               magnitude_offset = 0,
               neighborhood = Neighborhood (sc_get_neighborhood_config K None)
                                           (get_starting_coordinate K),
               generator_started = False,
               urcg_done = False\<rparr>)"

definition is_done :: "('nc, 'vnm) urcg_state \<Rightarrow> bool" where
  "is_done s = urcg_done s"

subsection \<open>\<open>set_last_results\<close>\<close>

text \<open>
  The visit count of \<open>_coordinate_to_measure\<close> is incremented first. Then
  \<open>measurements[0]\<close> raises IndexError on an empty list, the \<open>assert\<close> raises
  AssertionError on a list of another length than 1, and otherwise the throughput of
  the first measurement is stored. What was mutated before an exception stays mutated.
  The coordinate data is specified on Coordinates only; with no coordinate to measure
  (\<open>None\<close>) the call is taken to raise TypeError.
\<close>

definition set_last_results ::
  "measurements \<Rightarrow> ('nc, 'vnm) urcg_state \<Rightarrow> outcome \<times> ('nc, 'vnm) urcg_state" where
  "set_last_results measurements s =
     (case coordinate_to_measure s of
        None \<Rightarrow> (Raised TypeError, s)
      | Some c \<Rightarrow>
          let s1 = s\<lparr>coordinate_data := increment_visit_count c (coordinate_data s)\<rparr>
          in (case measurements of
                None \<Rightarrow> (Returned, s1)
              | Some [] \<Rightarrow> (Raised IndexError, s1)
              | Some (None # _) \<Rightarrow> (Returned, s1)
              | Some (Some m # rest) \<Rightarrow>
                  (if length (Some m # rest) \<noteq> 1 then (Raised AssertionError, s1)
                   else (Returned,
                         s1\<lparr>coordinate_data :=
                              set_throughput c (perf_throughput m) (coordinate_data s1)\<rparr>))))"

definition get_last_results :: "('nc, 'vnm) urcg_state \<Rightarrow> error + int option" where
  "get_last_results s =
     (case coordinate_to_measure s of
        None \<Rightarrow> Inl TypeError
      | Some c \<Rightarrow> Inr (get_throughput (coordinate_data s) c))"

subsection \<open>\<open>_step\<close> and what it calls\<close>

definition handle_invalid_last_results ::
  "('nc, 'mc, 'pac, 'vnm) collaborators \<Rightarrow> ('nc, 'vnm) urcg_state \<Rightarrow> ('nc, 'vnm) urcg_state" where
  "handle_invalid_last_results K s =
     s\<lparr>coordinate_to_measure :=
         nbhd_get_nearest_unvisited_neighbor K (neighborhood s) (coordinate_data s)
           (coordinate_to_measure s)\<rparr>"

definition get_radius :: "('nc, 'mc, 'pac, 'vnm) collaborators \<Rightarrow> ('nc, 'vnm) urcg_state \<Rightarrow> int" where
  "get_radius K s = sc_get_radius K + radius_offset s"

definition get_magnitude :: "('nc, 'mc, 'pac, 'vnm) collaborators \<Rightarrow> ('nc, 'vnm) urcg_state \<Rightarrow> int" where
  "get_magnitude K s = sc_get_step_magnitude K + magnitude_offset s"

definition determine_if_done ::
  "coordinate \<Rightarrow> ('nc, 'vnm) urcg_state \<Rightarrow> ('nc, 'vnm) urcg_state" where
  "determine_if_done new_coordinate s =
     (let s1 = (if new_coordinate = current_coordinate s then s\<lparr>urcg_done := True\<rparr> else s)
      in if get_visit_count (coordinate_data s1) new_coordinate \<ge> 2
         then s1\<lparr>urcg_done := True\<rparr> else s1)"

definition recreate_neighborhood ::
  "('nc, 'mc, 'pac, 'vnm) collaborators \<Rightarrow> ('nc, 'vnm) urcg_state \<Rightarrow> ('nc, 'vnm) urcg_state" where
  "recreate_neighborhood K s =
     (let neighborhood_config = sc_get_neighborhood_config K (Some (get_radius K s))
      in s\<lparr>neighborhood := Neighborhood neighborhood_config (current_coordinate s)\<rparr>)"

definition take_step ::
  "('nc, 'mc, 'pac, 'vnm) collaborators \<Rightarrow> ('nc, 'vnm) urcg_state \<Rightarrow> ('nc, 'vnm) urcg_state" where
  "take_step K s =
     (let magnitude = get_magnitude K s;
          new_coordinate =
            nbhd_calculate_new_coordinate K (neighborhood s) (coordinate_data s) magnitude;
          s1 = determine_if_done new_coordinate s;
          s2 = s1\<lparr>current_coordinate := new_coordinate,
                  coordinate_to_measure := Some new_coordinate\<rparr>
      in recreate_neighborhood K s2)"

definition pick_coordinate_to_initialize ::
  "('nc, 'mc, 'pac, 'vnm) collaborators \<Rightarrow> ('nc, 'vnm) urcg_state \<Rightarrow> ('nc, 'vnm) urcg_state" where
  "pick_coordinate_to_initialize K s =
     s\<lparr>coordinate_to_measure :=
         nbhd_pick_coordinate_to_initialize K (neighborhood s) (coordinate_data s)\<rparr>"

definition step ::
  "('nc, 'mc, 'pac, 'vnm) collaborators \<Rightarrow> ('nc, 'vnm) urcg_state \<Rightarrow>
   outcome \<times> ('nc, 'vnm) urcg_state" where
  "step K s =
     (case get_last_results s of
        Inl e \<Rightarrow> (Raised e, s)
      | Inr last_results \<Rightarrow>
          let s1 = (if last_results = None then handle_invalid_last_results K s
                    else if nbhd_enough_coordinates_initialized K (neighborhood s) (coordinate_data s)
                    then take_step K s
                    else pick_coordinate_to_initialize K s)
          in (Returned,
              if coordinate_to_measure s1 = None then s1\<lparr>urcg_done := True\<rparr> else s1))"

subsection \<open>From a coordinate to a RunConfig\<close>

text \<open>
  \<open>_get_coordinate_values\<close>: \<open>values[key]\<close> raises KeyError for a model number the
  dimensions do not know.
\<close>

definition get_coordinate_values ::
  "('nc, 'mc, 'pac, 'vnm) collaborators \<Rightarrow> coordinate option \<Rightarrow> nat \<Rightarrow>
   error + (string \<rightharpoonup> pa_value)" where
  "get_coordinate_values K coordinate key =
     (case sc_get_values_for_coordinate K coordinate of
        Inl e \<Rightarrow> Inl e
      | Inr vals \<Rightarrow> (case vals key of None \<Rightarrow> Inl KeyError | Some dv \<Rightarrow> Inr dv))"

definition get_next_model_config ::
  "('nc, 'mc, 'pac, 'vnm) collaborators \<Rightarrow> model list \<Rightarrow> nat \<Rightarrow> ('nc, 'vnm) urcg_state \<Rightarrow>
   (error + 'mc) \<times> ('nc, 'vnm) urcg_state" where
  "get_next_model_config K models model_num s =
     (case get_coordinate_values K (coordinate_to_measure s) model_num of
        Inl e \<Rightarrow> (Inl e, s)
      | Inr dimension_values \<Rightarrow>
          (case dimension_values ''max_batch_size'' of
             None \<Rightarrow> (Inl KeyError, s)
           | Some mbs \<Rightarrow>
               (case dimension_values ''instance_count'' of
                  None \<Rightarrow> (Inl KeyError, s)
                | Some ic \<Rightarrow>
                    if length models \<le> model_num then (Inl IndexError, s)
                    else
                      let param_combo =
                            \<lparr>pc_dynamic_batching = [],
                             pc_max_batch_size = mbs,
                             pc_instance_group =
                               [\<lparr>ig_count = ic, ig_kind = ''KIND_GPU'',
                                 ig_rate_limiter_priority = 1\<rparr>]\<rparr>;
                          (model_config, vnm) =
                            make_model_config K param_combo (models ! model_num)
                              (variant_name_manager s)
                      in (Inr model_config, s\<lparr>variant_name_manager := vnm\<rparr>))))"

definition perf_config_params :: "string \<Rightarrow> pa_value \<Rightarrow> (string \<times> pa_value) list" where
  "perf_config_params model_variant_name concurrency =
     [(''model-name'', Str model_variant_name),
      (''latency-report-file'', Str (model_variant_name @ ''-results.csv'')),
      (''measurement-mode'', Str ''count_windows''),
      (''batch-size'', Num 1),
      (''verbose-csv'', Str ''--verbose-csv''),
      (''concurrency-range'', concurrency)]"

definition get_next_perf_analyzer_config ::
  "('nc, 'mc, 'pac, 'vnm) collaborators \<Rightarrow> model list \<Rightarrow> string \<Rightarrow> nat \<Rightarrow>
   ('nc, 'vnm) urcg_state \<Rightarrow> error + 'pac" where
  "get_next_perf_analyzer_config K models model_variant_name model_num s =
     (case get_coordinate_values K (coordinate_to_measure s) model_num of
        Inl e \<Rightarrow> Inl e
      | Inr dimension_values \<Rightarrow>
          (case dimension_values ''concurrency'' of
             None \<Rightarrow> Inl KeyError
           | Some concurrency \<Rightarrow>
               if length models \<le> model_num then Inl IndexError
               else
                 Inr (update_config K (perf_analyzer_flags (models ! model_num))
                        (update_config K (perf_config_params model_variant_name concurrency)
                           (new_PerfAnalyzerConfig K)))))"

definition get_next_model_run_config ::
  "('nc, 'mc, 'pac, 'vnm) collaborators \<Rightarrow> model list \<Rightarrow> nat \<Rightarrow> ('nc, 'vnm) urcg_state \<Rightarrow>
   (error + ('mc, 'pac) model_run_config) \<times> ('nc, 'vnm) urcg_state" where
  "get_next_model_run_config K models model_num s =
     (case get_next_model_config K models model_num s of
        (Inl e, s1) \<Rightarrow> (Inl e, s1)
      | (Inr mc, s1) \<Rightarrow>
          (case get_next_perf_analyzer_config K models (get_field_name K mc) model_num s1 of
             Inl e \<Rightarrow> (Inl e, s1)
           | Inr pac \<Rightarrow>
               if length models \<le> model_num then (Inl IndexError, s1)
               else (Inr (ModelRunConfig (model_name (models ! model_num)) mc pac), s1)))"

text \<open>The loop of \<open>_get_next_run_config\<close> over the model numbers.\<close>

fun add_model_run_configs ::
  "('nc, 'mc, 'pac, 'vnm) collaborators \<Rightarrow> model list \<Rightarrow> nat list \<Rightarrow>
   ('mc, 'pac) model_run_config run_config \<Rightarrow> ('nc, 'vnm) urcg_state \<Rightarrow>
   (error + ('mc, 'pac) model_run_config run_config) \<times> ('nc, 'vnm) urcg_state" where
  "add_model_run_configs K models [] run_config s = (Inr run_config, s)"
| "add_model_run_configs K models (i # rest) run_config s =
     (case get_next_model_run_config K models i s of
        (Inl e, s1) \<Rightarrow> (Inl e, s1)
      | (Inr mrc, s1) \<Rightarrow>
          add_model_run_configs K models rest (add_model_run_config mrc run_config) s1)"

definition get_next_run_config ::
  "('nc, 'mc, 'pac, 'vnm) collaborators \<Rightarrow> model list \<Rightarrow> ('nc, 'vnm) urcg_state \<Rightarrow>
   (error + ('mc, 'pac) model_run_config run_config) \<times> ('nc, 'vnm) urcg_state" where
  "get_next_run_config K models s =
     add_model_run_configs K models [0..<length models] (RunConfig (urcg_triton_env s) []) s"

subsection \<open>\<open>get_configs\<close>\<close>

text \<open>
  What one pull on a generator gives: a value, the end of the sequence, or an exception.
\<close>

datatype 'a pulled = Yield 'a | StopIteration | Raise error

text \<open>
  The generator \<open>get_configs\<close> is suspended at its \<open>yield\<close>. The first pull runs it
  from the start to the \<open>yield\<close>; every later pull resumes after the \<open>yield\<close>, runs
  \<open>_step\<close>, goes round the \<open>while True\<close> loop and runs to the \<open>yield\<close> again.
\<close>

definition get_configs_start ::
  "('nc, 'mc, 'pac, 'vnm) collaborators \<Rightarrow> model list \<Rightarrow> ('nc, 'vnm) urcg_state \<Rightarrow>
   ('mc, 'pac) model_run_config run_config pulled \<times> ('nc, 'vnm) urcg_state" where
  "get_configs_start K models s =
     (case get_next_run_config K models (s\<lparr>generator_started := True\<rparr>) of
        (Inl e, s1) \<Rightarrow> (Raise e, s1)
      | (Inr config, s1) \<Rightarrow> (Yield config, s1))"

definition get_configs_resume ::
  "('nc, 'mc, 'pac, 'vnm) collaborators \<Rightarrow> model list \<Rightarrow> ('nc, 'vnm) urcg_state \<Rightarrow>
   ('mc, 'pac) model_run_config run_config pulled \<times> ('nc, 'vnm) urcg_state" where
  "get_configs_resume K models s =
     (case step K s of
        (Raised e, s1) \<Rightarrow> (Raise e, s1)
      | (Returned, s1) \<Rightarrow>
          (case get_next_run_config K models s1 of
             (Inl e, s2) \<Rightarrow> (Raise e, s2)
           | (Inr config, s2) \<Rightarrow> (Yield config, s2)))"

text \<open>
  A consumer that pulls \<open>pulls\<close> times, or until the sequence ends or raises, and
  after the RunConfig number \<open>k\<close> calls \<open>set_last_results\<close> with each argument of
  \<open>consumer k\<close>: the RunConfigs it received and the last state.
\<close>

fun get_configs ::
  "('nc, 'mc, 'pac, 'vnm) collaborators \<Rightarrow> model list \<Rightarrow> consumer \<Rightarrow> nat \<Rightarrow> nat \<Rightarrow>
   ('nc, 'vnm) urcg_state \<Rightarrow>
   ('mc, 'pac) model_run_config run_config list \<times> ('nc, 'vnm) urcg_state" where
  "get_configs K models consumer 0 k s = ([], s)"
| "get_configs K models consumer (Suc pulls) k s =
     (case (if k = 0 then get_configs_start K models s else get_configs_resume K models s) of
        (Yield config, s1) \<Rightarrow>
          (let s2 = fold (\<lambda>ms s'. snd (set_last_results ms s')) (consumer k) s1;
               (configs, s3) = get_configs K models consumer pulls (Suc k) s2
           in (config # configs, s3))
      | (_, s1) \<Rightarrow> ([], s1))"

section \<open>Notions used in the statements\<close>

subsection \<open>Traversals of the composite enumerator\<close>

text \<open>
  The log of a complete run (construction, then the traversal pulled to its end), and
  the RunConfigs that run produced. A failed construction leaves no log.
\<close>

definition traversal_log :: "'c profile_config \<Rightarrow> model list \<Rightarrow> consumer \<Rightarrow> 'c event list" where
  "traversal_log cfg models consumer =
     (case run_RunConfigGenerator cfg models consumer of
        Inl e \<Rightarrow> []
      | Inr s \<Rightarrow> rcg_log s)"

text \<open>The feedback buffers, one per depth, at the end of a complete run.\<close>

definition traversal_buffers ::
  "'c profile_config \<Rightarrow> model list \<Rightarrow> consumer \<Rightarrow> measurement option list list" where
  "traversal_buffers cfg models consumer =
     (case run_RunConfigGenerator cfg models consumer of
        Inl e \<Rightarrow> []
      | Inr s \<Rightarrow> curr_results s)"

definition produced_run_configs ::
  "'c profile_config \<Rightarrow> model list \<Rightarrow> consumer \<Rightarrow> 'c option run_config list" where
  "produced_run_configs cfg models consumer = yielded_of (traversal_log cfg models consumer)"

text \<open>The configurations the sub-enumerator of a model yields.\<close>

definition sub_configs :: "'c profile_config \<Rightarrow> bool \<Rightarrow> model \<Rightarrow> 'c list" where
  "sub_configs cfg default_only m = mrcg_get_configs (new_ModelRunConfigGenerator cfg m default_only)"

text \<open>
  Feedback before advance: whenever a sub-enumerator is asked for a configuration, the
  buffer of its depth is empty, and the event just before is the creation of that
  sub-enumerator or the forwarding of that depth's buffer to it.
\<close>

definition advance_ok :: "'c event option \<Rightarrow> 'c event \<Rightarrow> bool" where
  "advance_ok prev e =
     (case e of
        Asked d buf \<Rightarrow>
          buf = [] \<and>
          (case prev of
             Some (Created d' _) \<Rightarrow> d' = d
           | Some (Forwarded d' _) \<Rightarrow> d' = d
           | _ \<Rightarrow> False)
      | _ \<Rightarrow> True)"

fun feedback_before_advance :: "'c event option \<Rightarrow> 'c event list \<Rightarrow> bool" where
  "feedback_before_advance prev [] = True"
| "feedback_before_advance prev (e # es) =
     (advance_ok prev e \<and> feedback_before_advance (Some e) es)"

text \<open>
  Feedback reaches only depth \<open>d\<close>: no other depth's sub-enumerator is ever forwarded
  a non-empty buffer.
\<close>

fun forwarded_only_to :: "nat \<Rightarrow> 'c event \<Rightarrow> bool" where
  "forwarded_only_to d (Forwarded d' buf) = (buf = [] \<or> d' = d)"
| "forwarded_only_to d _ = True"

definition reaches_only_depth :: "nat \<Rightarrow> 'c event list \<Rightarrow> bool" where
  "reaches_only_depth d es = list_all (forwarded_only_to d) es"

subsection \<open>Invariants of the traversal\<close>

definition rcg_wf :: "nat \<Rightarrow> 'c rcg_state \<Rightarrow> bool" where
  "rcg_wf n s \<longleftrightarrow>
     rcg_failure s = None \<and> length (curr_model_run_configs s) = n \<and>
     length (curr_results s) = n \<and> length (curr_generators s) = n"

definition buffers_empty_from :: "nat \<Rightarrow> 'c rcg_state \<Rightarrow> bool" where
  "buffers_empty_from index s \<longleftrightarrow> (\<forall>b \<in> set (drop index (curr_results s)). b = [])"

definition ready :: "nat \<Rightarrow> 'c event list \<Rightarrow> bool" where
  "ready index es \<longleftrightarrow>
     es \<noteq> [] \<and> (case last es of Created d _ \<Rightarrow> d = index | Forwarded d _ \<Rightarrow> d = index | _ \<Rightarrow> False)"

definition fb_inv :: "nat \<Rightarrow> 'c rcg_state \<Rightarrow> bool" where
  "fb_inv index s \<longleftrightarrow>
     feedback_before_advance None (rcg_log s) \<and> buffers_empty_from index s \<and> ready index (rcg_log s)"

definition loop_inv ::
  "nat \<Rightarrow> nat \<Rightarrow> triton_env \<Rightarrow> 'c profile_config \<Rightarrow> 'c option list \<Rightarrow>
   'c ModelRunConfigGenerator option list \<Rightarrow> 'c rcg_state \<Rightarrow> bool" where
  "loop_inv n index E C pre G s \<longleftrightarrow>
     rcg_wf n s \<and> rcg_triton_env s = E \<and> rcg_config s = C \<and>
     take index (curr_model_run_configs s) = pre \<and> take index (curr_generators s) = G \<and>
     curr_generators s ! index \<noteq> None"

text \<open>
  What a call of \<open>_generate_subset\<close> at \<open>index\<close> establishes: it yields, in
  depth-first order, one RunConfig for every combination of configurations of the
  models from \<open>index\<close> on, each completed by the choices already fixed at the
  shallower depths, and it keeps the feedback-before-advance discipline.
\<close>

definition subset_post :: "model list \<Rightarrow> nat \<Rightarrow> bool \<Rightarrow> 'c rcg_state \<Rightarrow> 'c rcg_state \<Rightarrow> bool" where
  "subset_post models index d s s' \<longleftrightarrow>
     rcg_wf (length models) s' \<and> rcg_triton_env s' = rcg_triton_env s \<and> rcg_config s' = rcg_config s \<and>
     take index (curr_model_run_configs s') = take index (curr_model_run_configs s) \<and>
     take index (curr_generators s') = take index (curr_generators s) \<and>
     yielded_of (rcg_log s') =
       yielded_of (rcg_log s) @
       map (\<lambda>combo. RunConfig (rcg_triton_env s) (take index (curr_model_run_configs s) @ map Some combo))
           (product_lists (map (sub_configs (rcg_config s) d) (drop index models))) \<and>
     (feedback_before_advance None (rcg_log s) \<and> buffers_empty_from index s \<longrightarrow>
      feedback_before_advance None (rcg_log s') \<and> buffers_empty_from index s')"

text \<open>The body of the \<open>for\<close> loop of \<open>_generate_subset\<close>, with the recursive call abstracted.\<close>

definition loop_body ::
  "consumer \<Rightarrow> model list \<Rightarrow> nat \<Rightarrow> ('c rcg_state \<Rightarrow> 'c rcg_state) \<Rightarrow> 'c \<Rightarrow> 'c rcg_state \<Rightarrow> 'c rcg_state" where
  "loop_body consumer models index rec =
     (\<lambda>model_run_config s'.
        if rcg_failure s' \<noteq> None then s'
        else if length (curr_model_run_configs s') \<le> index
        then rcg_raise IndexError s'
        else
          let s2 = (record_event (Asked index (buffer_at index s')) s')
                     \<lparr>curr_model_run_configs :=
                        (curr_model_run_configs s')[index := Some model_run_config]\<rparr>;
              s3 = (if index = length models - 1
                    then yield_run_config consumer (make_run_config models s2) s2
                    else rec s2)
          in if rcg_failure s3 \<noteq> None then s3
             else send_results_to_generator index s3)"

subsection \<open>Assembly of a ModelRunConfig\<close>

text \<open>
  A ModelRunConfig is assembled for a model from a coordinate: the coordinate resolves
  through the dimensions to \<open>max_batch_size\<close>, \<open>instance_count\<close> and
  \<open>concurrency\<close>; the first two are the parameters of the generated model
  configuration, the third is the concurrency range of the perf-analyzer
  configuration, which is then updated by the model's own perf-analyzer flags.
\<close>

definition assembled_for ::
  "('nc, 'mc, 'pac, 'vnm) collaborators \<Rightarrow> coordinate option \<Rightarrow> model \<Rightarrow> nat \<Rightarrow>
   ('mc, 'pac) model_run_config \<Rightarrow> bool" where
  "assembled_for K coordinate m model_num mrc \<longleftrightarrow>
     (\<exists>dv mbs ic conc vnm.
        get_coordinate_values K coordinate model_num = Inr dv \<and>
        dv ''max_batch_size'' = Some mbs \<and> dv ''instance_count'' = Some ic \<and>
        dv ''concurrency'' = Some conc \<and>
        mrc_model_name mrc = model_name m \<and>
        mrc_model_config mrc =
          fst (make_model_config K
                 \<lparr>pc_dynamic_batching = [], pc_max_batch_size = mbs,
                  pc_instance_group =
                    [\<lparr>ig_count = ic, ig_kind = ''KIND_GPU'', ig_rate_limiter_priority = 1\<rparr>]\<rparr>
                 m vnm) \<and>
        mrc_perf_config mrc =
          update_config K (perf_analyzer_flags m)
            (update_config K
               (perf_config_params (get_field_name K (mrc_model_config mrc)) conc)
               (new_PerfAnalyzerConfig K)))"

subsection \<open>Concrete inputs\<close>

definition example_model :: "string \<Rightarrow> triton_env \<Rightarrow> model" where
  "example_model name env =
     \<lparr>model_name = name, triton_server_environment = env, perf_analyzer_flags = []\<rparr>"

definition example_models :: "model list" where
  "example_models = [example_model ''a'' Map.empty, example_model ''b'' Map.empty]"

definition mismatched_models :: "model list" where
  "mismatched_models =
     [example_model ''a'' Map.empty, example_model ''b'' [''CUDA_VISIBLE_DEVICES'' \<mapsto> ''1'']]"

definition example_profile_config :: "nat profile_config" where
  "example_profile_config =
     \<lparr>default_configuration = (\<lambda>_. 0), legal_configurations = (\<lambda>_. [1, 2])\<rparr>"

definition single_profile_config :: "nat profile_config" where
  "single_profile_config =
     \<lparr>default_configuration = (\<lambda>_. 0), legal_configurations = (\<lambda>_. [1])\<rparr>"

text \<open>A consumer that reports one measurement for the first RunConfig and nothing after.\<close>

definition example_consumer :: consumer where
  "example_consumer k = (if k = 0 then [Some [Some (Measurement 7)]] else [])"

definition example_rcg_state :: "nat rcg_state" where
  "example_rcg_state =
     \<lparr>rcg_config = example_profile_config,
      rcg_triton_env = Map.empty,
      rcg_num_models = 2,
      curr_model_run_configs = [None, None],
      curr_results = [[], []],
      curr_generators = [None, None],
      default_returned = False,
      rcg_failure = None,
      rcg_log = []\<rparr>"

definition example_dimension_values :: "nat \<rightharpoonup> (string \<rightharpoonup> pa_value)" where
  "example_dimension_values =
     [0 \<mapsto> [''max_batch_size'' \<mapsto> Num 4, ''instance_count'' \<mapsto> Num 2, ''concurrency'' \<mapsto> Num 8]]"

text \<open>
  Collaborators for a flat throughput surface: the computed step stays at the center,
  and the neighborhood has no coordinate left to initialize or to fall back to.
\<close>

definition example_collaborators ::
  "(unit, string, (string \<times> pa_value) list, nat) collaborators" where
  "example_collaborators =
     \<lparr>sc_get_min_indexes = [0],
      sc_get_radius = 1,
      sc_get_step_magnitude = 1,
      sc_get_neighborhood_config = (\<lambda>_. ()),
      sc_get_values_for_coordinate =
        (\<lambda>c. case c of None \<Rightarrow> Inl TypeError | Some _ \<Rightarrow> Inr example_dimension_values),
      nbhd_enough_coordinates_initialized = (\<lambda>_ _. True),
      nbhd_calculate_new_coordinate = (\<lambda>nb _ _. nbhd_center nb),
      nbhd_pick_coordinate_to_initialize = (\<lambda>_ _. None),
      nbhd_get_nearest_unvisited_neighbor = (\<lambda>_ _ _. None),
      new_ModelVariantNameManager = 0,
      make_model_config = (\<lambda>_ m vnm. (model_name m, vnm + 1)),
      get_field_name = (\<lambda>mc. mc),
      new_PerfAnalyzerConfig = [],
      update_config = (\<lambda>params pac. pac @ params)\<rparr>"

definition example_state :: "(unit, nat) urcg_state" where
  "example_state =
     \<lparr>variant_name_manager = 0,
      urcg_triton_env = Map.empty,
      coordinate_data = new_CoordinateData,
      current_coordinate = [0],
      coordinate_to_measure = Some [0],
      radius_offset = 0,
      magnitude_offset = 0,
      neighborhood = Neighborhood () [0],
      generator_started = False,
      urcg_done = False\<rparr>"

text \<open>Consumers that report a valid measurement, or a failed run, for every RunConfig.\<close>

definition valid_feedback :: consumer where
  "valid_feedback k = [Some [Some (Measurement 100)]]"

definition failed_feedback :: consumer where
  "failed_feedback k = [Some [None]]"

text \<open>
  The driver after its first RunConfig was measured with throughput 100: the state in
  which the next pull computes a step.
\<close>

definition measured_input :: "(unit, nat) urcg_state" where
  "measured_input =
     snd (set_last_results (Some [Some (Measurement 100)])
            (snd (get_configs_start example_collaborators [example_model ''a'' Map.empty]
                    example_state)))"

text \<open>
  The driver after its first RunConfig was reported as a failed run: the state in which
  the next pull finds no coordinate left.
\<close>

definition exhausted_input :: "(unit, nat) urcg_state" where
  "exhausted_input =
     snd (set_last_results (Some [None])
            (snd (get_configs_start example_collaborators [example_model ''a'' Map.empty]
                    example_state)))"

section \<open>Lemmas\<close>

subsection \<open>Composite enumerator\<close>

lemma record_event_fields [simp]:
  "rcg_log (record_event e s) = rcg_log s @ [e]"
  "rcg_failure (record_event e s) = rcg_failure s"
  "curr_results (record_event e s) = curr_results s"
  "curr_generators (record_event e s) = curr_generators s"
  "curr_model_run_configs (record_event e s) = curr_model_run_configs s"
  "rcg_triton_env (record_event e s) = rcg_triton_env s"
  "rcg_config (record_event e s) = rcg_config s"
  "rcg_num_models (record_event e s) = rcg_num_models s"
  by (simp_all add: record_event_def)

lemma yielded_of_append: "yielded_of (xs @ ys) = yielded_of xs @ yielded_of ys"
  by (induction xs rule: yielded_of.induct) simp_all

lemma yielded_of_map_Supplied [simp]: "yielded_of (map Supplied xs) = []"
  by (induction xs) simp_all

lemma extend_results_frame:
  "\<exists>cr. length cr = length (curr_results s) \<and>
        snd (extend_results ms idxs s) = s\<lparr>curr_results := cr\<rparr>"
proof (induction idxs arbitrary: s)
  case Nil
  have "s = s\<lparr>curr_results := curr_results s\<rparr>" by simp
  then show ?case by (metis extend_results.simps(1) snd_conv)
next
  case (Cons i idxs)
  show ?case
  proof (cases "i < length (curr_results s)")
    case True
    let ?s = "s\<lparr>curr_results := (curr_results s)[i := curr_results s ! i @ ms]\<rparr>"
    from Cons.IH[of ?s] obtain cr where
      "length cr = length (curr_results ?s)" "snd (extend_results ms idxs ?s) = ?s\<lparr>curr_results := cr\<rparr>"
      by blast
    with True show ?thesis by (intro exI[of _ cr]) simp
  next
    case False
    have "s = s\<lparr>curr_results := curr_results s\<rparr>" by simp
    with False show ?thesis by (intro exI[of _ "curr_results s"]) simp
  qed
qed

lemma consumer_call_frame:
  "\<exists>cr. length cr = length (curr_results s) \<and>
        consumer_call ms s = s\<lparr>curr_results := cr, rcg_log := rcg_log s @ [Supplied ms]\<rparr>"
proof (cases ms)
  case None
  then show ?thesis
    by (intro exI[of _ "curr_results s"]) (simp add: consumer_call_def rcg_set_last_results_def record_event_def)
next
  case (Some m)
  from extend_results_frame[of "record_event (Supplied ms) s" m "[0..<rcg_num_models s]"]
  obtain cr where "length cr = length (curr_results s)"
    "snd (extend_results m [0..<rcg_num_models s] (record_event (Supplied ms) s))
       = (record_event (Supplied ms) s)\<lparr>curr_results := cr\<rparr>"
    by auto
  with Some show ?thesis
    by (intro exI[of _ cr]) (simp add: consumer_call_def rcg_set_last_results_def record_event_def)
qed

lemma fold_consumer_call_frame:
  "\<exists>cr. length cr = length (curr_results s) \<and>
        fold consumer_call mss s = s\<lparr>curr_results := cr, rcg_log := rcg_log s @ map Supplied mss\<rparr>"
proof (induction mss arbitrary: s)
  case Nil
  show ?case by (intro exI[of _ "curr_results s"]) simp
next
  case (Cons ms mss)
  from consumer_call_frame[of s ms] obtain cr1 where 1:
    "length cr1 = length (curr_results s)"
    "consumer_call ms s = s\<lparr>curr_results := cr1, rcg_log := rcg_log s @ [Supplied ms]\<rparr>" by blast
  from Cons.IH[of "consumer_call ms s"] obtain cr2 where 2:
    "length cr2 = length (curr_results (consumer_call ms s))"
    "fold consumer_call mss (consumer_call ms s)
       = (consumer_call ms s)\<lparr>curr_results := cr2, rcg_log := rcg_log (consumer_call ms s) @ map Supplied mss\<rparr>"
    by blast
  show ?case using 1 2 by (intro exI[of _ cr2]) simp
qed

lemma yield_run_config_frame:
  "\<exists>cr. length cr = length (curr_results s) \<and>
        yield_run_config consumer rc s
          = s\<lparr>curr_results := cr,
              rcg_log := rcg_log s @ Yielded rc # map Supplied (consumer (length (yielded_of (rcg_log s))))\<rparr>"
proof -
  from fold_consumer_call_frame[of "record_event (Yielded rc) s" "consumer (length (yielded_of (rcg_log s)))"]
  obtain cr where "length cr = length (curr_results s)"
    "fold consumer_call (consumer (length (yielded_of (rcg_log s)))) (record_event (Yielded rc) s)
       = (record_event (Yielded rc) s)\<lparr>curr_results := cr,
            rcg_log := rcg_log (record_event (Yielded rc) s) @ map Supplied (consumer (length (yielded_of (rcg_log s))))\<rparr>"
    by auto
  then show ?thesis
    by (intro exI[of _ cr]) (simp add: yield_run_config_def record_event_def)
qed

lemma fold_add_model_run_config:
  "fold (\<lambda>index rc. add_model_run_config (f index) rc) idxs (RunConfig e acc)
     = RunConfig e (acc @ map f idxs)"
  by (induction idxs arbitrary: acc) (simp_all add: add_model_run_config_def)

lemma make_run_config_eq:
  "length (curr_model_run_configs s) = length models \<Longrightarrow>
   make_run_config models s = RunConfig (rcg_triton_env s) (curr_model_run_configs s)"
  using map_nth[of "curr_model_run_configs s"]
  by (simp add: make_run_config_def fold_add_model_run_config)

declare generate_subset.simps [simp del]

lemma generate_subset_unfold:
  "generate_subset consumer models index default_only s =
     (if length models \<le> index \<or> length (curr_generators s) \<le> index
      then rcg_raise IndexError s
      else
        let mrcg = new_ModelRunConfigGenerator (rcg_config s) (models ! index) default_only;
            s1 = record_event (Created index default_only)
                   (s\<lparr>curr_generators := (curr_generators s)[index := Some mrcg]\<rparr>);
            s4 = fold (loop_body consumer models index
                         (generate_subset consumer models (index + 1) default_only))
                      (mrcg_get_configs mrcg) s1
        in if rcg_failure s4 \<noteq> None then s4
           else record_event (Asked index (buffer_at index s4)) s4)"
  by (subst generate_subset.simps) (simp only: loop_body_def)

lemma fba_append:
  "feedback_before_advance p (es @ es') =
     (feedback_before_advance p es \<and>
      feedback_before_advance (if es = [] then p else Some (last es)) es')"
  by (induction es arbitrary: p) simp_all

lemma fba_no_Asked:
  "\<forall>e \<in> set es. \<forall>d b. e \<noteq> Asked d b \<Longrightarrow> feedback_before_advance p es"
  by (induction es arbitrary: p) (auto simp: advance_ok_def split: event.splits)

lemma fba_snoc_Asked:
  "ready index es \<Longrightarrow> feedback_before_advance p es \<Longrightarrow>
   feedback_before_advance p (es @ [Asked index []])"
  by (auto simp: fba_append ready_def advance_ok_def split: event.splits)

lemma fba_snoc_other:
  "feedback_before_advance p es \<Longrightarrow> \<forall>d b. e \<noteq> Asked d b \<Longrightarrow>
   feedback_before_advance p (es @ [e])"
  by (auto simp: fba_append advance_ok_def split: event.splits)

lemma drop_update_same:
  "i < length xs \<Longrightarrow> drop i (xs[i := v]) = v # drop (Suc i) xs"
  by (metis Cons_nth_drop_Suc drop_update_cancel length_list_update lessI nth_list_update_eq)

lemma take_Suc_update_same:
  "i < length xs \<Longrightarrow> take (Suc i) (xs[i := v]) = take i xs @ [v]"
  by (simp add: take_Suc_conv_app_nth)

lemma buffers_empty_from_Suc:
  "buffers_empty_from index s \<Longrightarrow> buffers_empty_from (Suc index) s"
  using set_drop_subset_set_drop[of index "Suc index" "curr_results s"]
  by (auto simp: buffers_empty_from_def)

lemma buffers_empty_from_nth:
  "buffers_empty_from index s \<Longrightarrow> index < length (curr_results s) \<Longrightarrow> curr_results s ! index = []"
  by (metis Cons_nth_drop_Suc buffers_empty_from_def list.set_intros(1))

lemma send_results_ok:
  assumes "index < length (curr_generators s)" "index < length (curr_results s)"
    and "curr_generators s ! index = Some g"
  shows "send_results_to_generator index s =
           s\<lparr>curr_generators :=
                (curr_generators s)[index := Some (mrcg_set_last_results (curr_results s ! index) g)],
              curr_results := (curr_results s)[index := []],
              rcg_log := rcg_log s @ [Forwarded index (curr_results s ! index)]\<rparr>"
  using assms by (simp add: send_results_to_generator_def record_event_def)

lemma loop_body_step:
  fixes rec :: "'c rcg_state \<Rightarrow> 'c rcg_state" and consumer :: consumer and c :: "'c"
  assumes n: "length models = n" "index < n"
    and rec: "\<And>s. Suc index < n \<Longrightarrow> rcg_wf n s \<Longrightarrow> subset_post models (Suc index) d s (rec s)"
    and inv: "loop_inv n index E C pre G s"
  defines "s' \<equiv> loop_body consumer models index rec c s"
  shows "loop_inv n index E C pre G s' \<and>
         yielded_of (rcg_log s') =
           yielded_of (rcg_log s) @
           map (\<lambda>combo. RunConfig E (pre @ Some c # map Some combo))
               (product_lists (map (sub_configs C d) (drop (Suc index) models))) \<and>
         (fb_inv index s \<longrightarrow> fb_inv index s')"
proof -
  from inv have wf: "rcg_failure s = None" "length (curr_model_run_configs s) = n"
      "length (curr_results s) = n" "length (curr_generators s) = n"
    and EC: "rcg_triton_env s = E" "rcg_config s = C"
    and pre: "take index (curr_model_run_configs s) = pre"
    and G: "take index (curr_generators s) = G"
    by (simp_all add: loop_inv_def rcg_wf_def)
  from inv obtain g where g: "curr_generators s ! index = Some g"
    by (auto simp: loop_inv_def)
  define s2 where "s2 = (record_event (Asked index (buffer_at index s)) s)
      \<lparr>curr_model_run_configs := (curr_model_run_configs s)[index := Some c]\<rparr>"
  define s3 where "s3 = (if index = length models - 1
      then yield_run_config consumer (make_run_config models s2) s2 else rec s2)"
  have s'_eq: "s' = (if rcg_failure s3 \<noteq> None then s3 else send_results_to_generator index s3)"
    using wf n by (auto simp add: s'_def loop_body_def s2_def s3_def Let_def)
  have s2: "rcg_wf n s2" "rcg_triton_env s2 = E" "rcg_config s2 = C"
    "take (Suc index) (curr_model_run_configs s2) = pre @ [Some c]"
    "curr_generators s2 = curr_generators s" "curr_results s2 = curr_results s"
    "rcg_log s2 = rcg_log s @ [Asked index (curr_results s ! index)]"
    using wf n EC pre by (simp_all add: s2_def rcg_wf_def take_Suc_update_same buffer_at_def)
  have fb2: "feedback_before_advance None (rcg_log s2) \<and> buffers_empty_from (Suc index) s2"
    if "fb_inv index s"
  proof -
    from that have a: "feedback_before_advance None (rcg_log s)" "buffers_empty_from index s"
      "ready index (rcg_log s)" by (simp_all add: fb_inv_def)
    from a(2) wf n have "curr_results s ! index = []" by (simp add: buffers_empty_from_nth)
    with a(1,3) have "feedback_before_advance None (rcg_log s2)"
      by (simp add: s2(7) fba_snoc_Asked)
    moreover from buffers_empty_from_Suc[OF a(2)] have "buffers_empty_from (Suc index) s2"
      by (simp add: buffers_empty_from_def s2(6))
    ultimately show ?thesis by simp
  qed
  have s3: "rcg_wf n s3 \<and> rcg_triton_env s3 = E \<and> rcg_config s3 = C \<and>
      take (Suc index) (curr_model_run_configs s3) = pre @ [Some c] \<and>
      take (Suc index) (curr_generators s3) = take (Suc index) (curr_generators s) \<and>
      yielded_of (rcg_log s3) =
        yielded_of (rcg_log s) @
        map (\<lambda>combo. RunConfig E (pre @ Some c # map Some combo))
            (product_lists (map (sub_configs C d) (drop (Suc index) models))) \<and>
      (fb_inv index s \<longrightarrow> feedback_before_advance None (rcg_log s3) \<and> buffers_empty_from (Suc index) s3)"
  proof (cases "Suc index = n")
    case True
    then have last: "index = length models - 1" using n by simp
    have len2: "length (curr_model_run_configs s2) = length models"
      using s2(1) n by (simp add: rcg_wf_def)
    have cm2: "curr_model_run_configs s2 = pre @ [Some c]"
      using s2(4) s2(1) True by (simp add: rcg_wf_def)
    let ?rc = "RunConfig E (pre @ [Some c])"
    have mk: "make_run_config models s2 = ?rc"
      using make_run_config_eq[OF len2] cm2 s2(2) by simp
    from yield_run_config_frame[of s2 consumer ?rc] obtain cr where cr:
      "length cr = length (curr_results s2)"
      "yield_run_config consumer ?rc s2 =
         s2\<lparr>curr_results := cr,
            rcg_log := rcg_log s2 @ Yielded ?rc # map Supplied (consumer (length (yielded_of (rcg_log s2))))\<rparr>"
      by blast
    have s3_eq: "s3 = s2\<lparr>curr_results := cr,
            rcg_log := rcg_log s2 @ Yielded ?rc # map Supplied (consumer (length (yielded_of (rcg_log s2))))\<rparr>"
      using last mk cr(2) by (simp add: s3_def)
    have dropn: "drop (Suc index) models = []" using True n by simp
    have "feedback_before_advance None (rcg_log s3) \<and> buffers_empty_from (Suc index) s3"
      if "fb_inv index s"
    proof -
      have "feedback_before_advance p (Yielded ?rc # map Supplied xs)" for p xs
        by (rule fba_no_Asked) auto
      with fb2[OF that] have "feedback_before_advance None (rcg_log s3)"
        by (simp add: s3_eq fba_append)
      moreover have "buffers_empty_from (Suc index) s3"
        using cr(1) s2(1) True by (simp add: s3_eq buffers_empty_from_def rcg_wf_def)
      ultimately show ?thesis by simp
    qed
    moreover have "rcg_wf n s3" using s2(1) cr(1) by (simp add: s3_eq rcg_wf_def)
    moreover have "yielded_of (rcg_log s3) = yielded_of (rcg_log s) @ [?rc]"
      by (simp add: s3_eq s2(7) yielded_of_append)
    ultimately show ?thesis
      using s2 dropn by (simp add: s3_eq)
  next
    case False
    then have lt: "Suc index < n" using n by simp
    then have notlast: "index \<noteq> length models - 1" using n by simp
    have s3_eq: "s3 = rec s2" using notlast by (simp add: s3_def)
    from rec[OF lt s2(1)] have post: "subset_post models (Suc index) d s2 (rec s2)" .
    have y2: "yielded_of (rcg_log s2) = yielded_of (rcg_log s)"
      by (simp add: s2(7) yielded_of_append)
    show ?thesis
      using post fb2 n
      by (simp add: s3_eq subset_post_def s2 yielded_of_append)
  qed
  then have s3wf: "rcg_failure s3 = None" "length (curr_model_run_configs s3) = n"
      "length (curr_results s3) = n" "length (curr_generators s3) = n"
    by (simp_all add: rcg_wf_def)
  from s3 have "take (Suc index) (curr_generators s3) ! index = take (Suc index) (curr_generators s) ! index"
    by simp
  then have g3: "curr_generators s3 ! index = Some g" using g by simp
  have s'_upd: "s' = s3\<lparr>curr_generators :=
                (curr_generators s3)[index := Some (mrcg_set_last_results (curr_results s3 ! index) g)],
              curr_results := (curr_results s3)[index := []],
              rcg_log := rcg_log s3 @ [Forwarded index (curr_results s3 ! index)]\<rparr>"
    using s'_eq s3wf n g3 by (simp add: send_results_ok)
  have t1: "take index (curr_model_run_configs s3) = pre"
  proof -
    from s3 have "take index (take (Suc index) (curr_model_run_configs s3)) = take index (pre @ [Some c])"
      by simp
    moreover have "length pre = index" using pre wf n by auto
    ultimately show ?thesis by (simp add: min_def)
  qed
  have t2: "take index (curr_generators s3) = G"
  proof -
    from s3 have "take index (take (Suc index) (curr_generators s3)) = take index (take (Suc index) (curr_generators s))"
      by simp
    then show ?thesis using G by (simp add: min_def)
  qed
  have A: "loop_inv n index E C pre G s'"
    using s3 s3wf t1 t2 n by (simp add: s'_upd loop_inv_def rcg_wf_def)
  have B: "yielded_of (rcg_log s') =
           yielded_of (rcg_log s) @
           map (\<lambda>combo. RunConfig E (pre @ Some c # map Some combo))
               (product_lists (map (sub_configs C d) (drop (Suc index) models)))"
    using s3 by (simp add: s'_upd yielded_of_append)
  have C: "fb_inv index s'" if "fb_inv index s"
  proof -
    from s3 that have a: "feedback_before_advance None (rcg_log s3)" "buffers_empty_from (Suc index) s3"
      by simp_all
    have "feedback_before_advance None (rcg_log s')"
      using a(1) by (simp add: s'_upd fba_snoc_other)
    moreover have "buffers_empty_from index s'"
      using a(2) s3wf n by (simp add: s'_upd buffers_empty_from_def drop_update_same)
    moreover have "ready index (rcg_log s')"
      by (simp add: s'_upd ready_def)
    ultimately show ?thesis by (simp add: fb_inv_def)
  qed
  from A B C show ?thesis by blast
qed

lemma loop_fold:
  fixes rec :: "'c rcg_state \<Rightarrow> 'c rcg_state" and consumer :: consumer and cs :: "'c list"
  assumes n: "length models = n" "index < n"
    and rec: "\<And>s. Suc index < n \<Longrightarrow> rcg_wf n s \<Longrightarrow> subset_post models (Suc index) d s (rec s)"
  shows "loop_inv n index E C pre G s \<Longrightarrow>
     loop_inv n index E C pre G (fold (loop_body consumer models index rec) cs s) \<and>
     yielded_of (rcg_log (fold (loop_body consumer models index rec) cs s)) =
       yielded_of (rcg_log s) @
       concat (map (\<lambda>c. map (\<lambda>combo. RunConfig E (pre @ Some c # map Some combo))
                            (product_lists (map (sub_configs C d) (drop (Suc index) models)))) cs) \<and>
     (fb_inv index s \<longrightarrow> fb_inv index (fold (loop_body consumer models index rec) cs s))"
proof (induction cs arbitrary: s)
  case Nil
  then show ?case by simp
next
  case (Cons c cs)
  have step: "loop_inv n index E C pre G (loop_body consumer models index rec c s) \<and>
         yielded_of (rcg_log (loop_body consumer models index rec c s)) =
           yielded_of (rcg_log s) @
           map (\<lambda>combo. RunConfig E (pre @ Some c # map Some combo))
               (product_lists (map (sub_configs C d) (drop (Suc index) models))) \<and>
         (fb_inv index s \<longrightarrow> fb_inv index (loop_body consumer models index rec c s))"
    by (rule loop_body_step[OF n rec Cons.prems])
  from Cons.IH[of "loop_body consumer models index rec c s"] step
  show ?case by simp
qed

lemma generate_subset_post:
  "index < length models \<Longrightarrow> rcg_wf (length models) (s :: 'c rcg_state) \<Longrightarrow>
   subset_post models index d s (generate_subset consumer models index d s)"
proof (induction "length models - index" arbitrary: index s rule: less_induct)
  case less
  let ?n = "length models"
  let ?E = "rcg_triton_env s" and ?C = "rcg_config s"
  let ?pre = "take index (curr_model_run_configs s)" and ?G = "take index (curr_generators s)"
  let ?rec = "generate_subset consumer models (index + 1) d"
  from less.prems have wf: "rcg_failure s = None" "length (curr_model_run_configs s) = ?n"
      "length (curr_results s) = ?n" "length (curr_generators s) = ?n"
    by (simp_all add: rcg_wf_def)
  define mrcg where "mrcg = new_ModelRunConfigGenerator ?C (models ! index) d"
  define s1 where "s1 = record_event (Created index d)
                   (s\<lparr>curr_generators := (curr_generators s)[index := Some mrcg]\<rparr>)"
  define s4 where "s4 = fold (loop_body consumer models index ?rec) (mrcg_get_configs mrcg) s1"
  have res: "generate_subset consumer models index d s =
      (if rcg_failure s4 \<noteq> None then s4
       else record_event (Asked index (buffer_at index s4)) s4)"
    using less.prems wf
    by (subst generate_subset_unfold) (simp add: mrcg_def s1_def s4_def Let_def)
  have rec: "subset_post models (Suc index) d s' (?rec s')" if "Suc index < ?n" "rcg_wf ?n s'" for s' :: "'c rcg_state"
    using less.hyps[of "Suc index" s'] that less.prems by simp
  have inv1: "loop_inv ?n index ?E ?C ?pre ?G s1"
    using wf less.prems by (simp add: s1_def loop_inv_def rcg_wf_def)
  from loop_fold[where rec = ?rec and consumer = consumer and cs = "mrcg_get_configs mrcg",
      OF refl less.prems(1) rec inv1]
  have s4: "loop_inv ?n index ?E ?C ?pre ?G s4"
    "yielded_of (rcg_log s4) =
       yielded_of (rcg_log s1) @
       concat (map (\<lambda>c. map (\<lambda>combo. RunConfig ?E (?pre @ Some c # map Some combo))
                            (product_lists (map (sub_configs ?C d) (drop (Suc index) models))))
                   (mrcg_get_configs mrcg))"
    "fb_inv index s1 \<longrightarrow> fb_inv index s4"
    by (simp_all add: s4_def)
  from s4(1) have wf4: "rcg_failure s4 = None" "length (curr_model_run_configs s4) = ?n"
      "length (curr_results s4) = ?n" "length (curr_generators s4) = ?n"
    by (simp_all add: loop_inv_def rcg_wf_def)
  have res': "generate_subset consumer models index d s =
      record_event (Asked index (curr_results s4 ! index)) s4"
    using res wf4 less.prems by (simp add: buffer_at_def)
  have dr: "drop index models = models ! index # drop (Suc index) models"
    using less.prems(1) by (simp add: Cons_nth_drop_Suc)
  have sc: "sub_configs ?C d (models ! index) = mrcg_get_configs mrcg"
    by (simp add: sub_configs_def mrcg_def)
  have y: "yielded_of (rcg_log s4) =
       yielded_of (rcg_log s) @
       map (\<lambda>combo. RunConfig ?E (?pre @ map Some combo))
           (product_lists (map (sub_configs ?C d) (drop index models)))"
    by (simp add: s4(2) dr sc s1_def yielded_of_append map_concat o_def)
  have fb: "feedback_before_advance None (rcg_log (record_event (Asked index (curr_results s4 ! index)) s4)) \<and>
            buffers_empty_from index (record_event (Asked index (curr_results s4 ! index)) s4)"
    if a: "feedback_before_advance None (rcg_log s)" "buffers_empty_from index s"
  proof -
    have "fb_inv index s1"
      using a by (simp add: s1_def fb_inv_def fba_snoc_other buffers_empty_from_def ready_def)
    with s4(3) have 4: "feedback_before_advance None (rcg_log s4)" "buffers_empty_from index s4"
      "ready index (rcg_log s4)" by (simp_all add: fb_inv_def)
    from 4(2) wf4 less.prems have "curr_results s4 ! index = []"
      by (simp add: buffers_empty_from_nth)
    with 4 show ?thesis by (simp add: fba_snoc_Asked buffers_empty_from_def)
  qed
  show ?case
    unfolding res' subset_post_def
    using s4(1) y fb by (simp add: loop_inv_def rcg_wf_def yielded_of_append)
qed

lemma env_loop_eq:
  "env_loop e ms =
     (if \<forall>m \<in> set ms. triton_server_environment m = e then Inr e
      else Inl TritonModelAnalyzerException)"
  by (induction ms) auto

lemma determine_triton_server_env_eq:
  "determine_triton_server_env models =
     (if models = [] then Inl IndexError
      else if \<forall>m \<in> set models. triton_server_environment m = triton_server_environment (hd models)
      then Inr (triton_server_environment (hd models))
      else Inl TritonModelAnalyzerException)"
  by (cases models) (simp_all add: determine_triton_server_env_def env_loop_eq)

lemma product_lists_singletons: "product_lists (map (\<lambda>m. [f m]) ms) = [map f ms]"
  by (induction ms) simp_all

lemma length_product_lists_map:
  "length (product_lists (map f ms)) = prod_list (map (\<lambda>m. length (f m)) ms)"
  by (simp add: length_product_lists prod_list.eq_foldr o_def)

lemma sub_configs_simps:
  "sub_configs cfg True = (\<lambda>m. [default_configuration cfg m])"
  "sub_configs cfg False = legal_configurations cfg"
  by (auto simp: sub_configs_def mrcg_get_configs_def new_ModelRunConfigGenerator_def)

lemma extend_results_append:
  "extend_results ms (xs @ ys) s =
     (case extend_results ms xs s of
        (Returned, s') \<Rightarrow> extend_results ms ys s'
      | (Raised e, s') \<Rightarrow> (Raised e, s'))"
  by (induction xs arbitrary: s) simp_all

lemma extend_results_upto:
  "n \<le> length (curr_results s) \<Longrightarrow>
   extend_results ms [0..<n] s =
     (Returned, s\<lparr>curr_results := map (\<lambda>b. b @ ms) (take n (curr_results s)) @ drop n (curr_results s)\<rparr>)"
proof (induction n)
  case 0
  then show ?case by simp
next
  case (Suc n)
  let ?cr = "curr_results s"
  let ?A = "map (\<lambda>b. b @ ms) (take n ?cr)" and ?B = "drop n ?cr"
  from Suc.prems have n: "n < length ?cr" by simp
  have lenA: "length ?A = n" using n by simp
  have B: "?B = ?cr ! n # drop (Suc n) ?cr" using n by (simp add: Cons_nth_drop_Suc)
  have nth: "(?A @ ?B) ! n = ?cr ! n" using lenA B by (simp add: nth_append)
  have upd: "(?A @ ?B)[n := ?cr ! n @ ms] = ?A @ (?cr ! n @ ms) # drop (Suc n) ?cr"
    using lenA by (subst B) (simp add: list_update_append)
  have tk: "map (\<lambda>b. b @ ms) (take (Suc n) ?cr) = ?A @ [?cr ! n @ ms]"
    using n by (simp add: take_Suc_conv_app_nth)
  have len: "n < length (?A @ ?B)" using n by simp
  from Suc.IH n have IH: "extend_results ms [0..<n] s = (Returned, s\<lparr>curr_results := ?A @ ?B\<rparr>)"
    by simp
  have "extend_results ms [0..<Suc n] s = extend_results ms [n] (s\<lparr>curr_results := ?A @ ?B\<rparr>)"
    by (simp add: extend_results_append IH)
  also have "\<dots> = (Returned, s\<lparr>curr_results := (?A @ ?B)[n := (?A @ ?B) ! n @ ms]\<rparr>)"
    using len by simp
  also have "(?A @ ?B)[n := (?A @ ?B) ! n @ ms] = map (\<lambda>b. b @ ms) (take (Suc n) ?cr) @ drop (Suc n) ?cr"
    by (simp only: nth upd tk) simp
  finally show ?case .
qed

lemma rcg_set_last_results_every_depth:
  assumes "length (curr_results s) = rcg_num_models s"
  shows "rcg_set_last_results (Some ms) s =
           (Returned, s\<lparr>curr_results := map (\<lambda>b. b @ ms) (curr_results s)\<rparr>)"
  using extend_results_upto[of "rcg_num_models s" s ms] assms
  by (simp add: rcg_set_last_results_def)

lemma traversal_result:
  fixes cfg :: "'c profile_config"
  assumes "determine_triton_server_env models = Inr env"
  shows "\<exists>s. run_RunConfigGenerator cfg models consumer = Inr s \<and> rcg_failure s = None \<and>
           rcg_triton_env s = env \<and>
           yielded_of (rcg_log s) =
             RunConfig env (map (\<lambda>m. Some (default_configuration cfg m)) models) #
             map (\<lambda>combo. RunConfig env (map Some combo))
                 (product_lists (map (legal_configurations cfg) models)) \<and>
           feedback_before_advance None (rcg_log s) \<and>
           curr_results s = replicate (length models) []"
proof -
  let ?n = "length models"
  from assms have ne: "models \<noteq> []"
    by (auto simp: determine_triton_server_env_eq split: if_splits)
  define s0 :: "'c rcg_state" where "s0 =
     \<lparr>rcg_config = cfg, rcg_triton_env = env, rcg_num_models = ?n,
      curr_model_run_configs = replicate ?n None, curr_results = replicate ?n [],
      curr_generators = replicate ?n None, default_returned = False,
      rcg_failure = None, rcg_log = []\<rparr>"
  have init: "RunConfigGenerator_init cfg models = Inr s0"
    using assms by (simp add: RunConfigGenerator_init_def s0_def)
  have wf0: "rcg_wf ?n s0" by (simp add: rcg_wf_def s0_def)
  have fb0: "feedback_before_advance None (rcg_log s0)" "buffers_empty_from 0 s0"
    by (simp_all add: s0_def buffers_empty_from_def)
  have pos: "0 < ?n" using ne by simp
  define s1 where "s1 = generate_subset consumer models 0 True s0"
  have p1: "subset_post models 0 True s0 s1"
    unfolding s1_def by (rule generate_subset_post[OF pos wf0])
  define s1' where "s1' = s1\<lparr>default_returned := True\<rparr>"
  from p1 have wf1: "rcg_wf ?n s1'" and f1: "rcg_failure s1 = None"
    by (simp_all add: subset_post_def rcg_wf_def s1'_def)
  define s2 where "s2 = generate_subset consumer models 0 False s1'"
  have p2: "subset_post models 0 False s1' s2"
    unfolding s2_def by (rule generate_subset_post[OF pos wf1])
  have run: "run_RunConfigGenerator cfg models consumer = Inr s2"
    using f1 by (simp add: run_RunConfigGenerator_def init rcg_get_configs_def get_next_config_def
        Let_def s1_def[symmetric] s1'_def[symmetric] s2_def)
  have e1: "rcg_triton_env s1' = env" "rcg_config s1' = cfg"
    "yielded_of (rcg_log s1') = [RunConfig env (map (\<lambda>m. Some (default_configuration cfg m)) models)]"
    "feedback_before_advance None (rcg_log s1')" "buffers_empty_from 0 s1'"
    using p1 fb0
    by (simp_all add: subset_post_def s1'_def s0_def sub_configs_simps product_lists_singletons
        buffers_empty_from_def o_def)
  from p2 e1 have e2: "rcg_failure s2 = None" "rcg_triton_env s2 = env"
    "yielded_of (rcg_log s2) =
       RunConfig env (map (\<lambda>m. Some (default_configuration cfg m)) models) #
       map (\<lambda>combo. RunConfig env (map Some combo))
           (product_lists (map (legal_configurations cfg) models))"
    "feedback_before_advance None (rcg_log s2)"
    "length (curr_results s2) = ?n" "buffers_empty_from 0 s2"
    by (simp_all add: subset_post_def rcg_wf_def sub_configs_simps)
  from e2(6) have "\<forall>b \<in> set (curr_results s2). b = []"
    by (simp add: buffers_empty_from_def)
  then have "replicate (length (curr_results s2)) [] = curr_results s2"
    by (rule replicate_length_same)
  with e2(5) have e3: "curr_results s2 = replicate ?n []" by simp
  from run e2(1-4) e3 show ?thesis by blast
qed

subsection \<open>Hill-climbing driver\<close>

lemma set_last_results_visit:
  "coordinate_to_measure s = Some c \<Longrightarrow>
   get_visit_count (coordinate_data (snd (set_last_results ms s))) c
     = get_visit_count (coordinate_data s) c + 1 \<and>
   (\<forall>c'. c' \<noteq> c \<longrightarrow>
      get_visit_count (coordinate_data (snd (set_last_results ms s))) c'
        = get_visit_count (coordinate_data s) c')"
  by (auto simp: set_last_results_def Let_def get_visit_count_def increment_visit_count_def
      set_throughput_def split: option.splits list.splits)

lemma ex_coordinate_data_upd: "\<exists>cd. s = s\<lparr>coordinate_data := cd\<rparr>"
  by (rule exI[of _ "coordinate_data s"]) simp

lemma ex_variant_name_manager_upd: "\<exists>v. s = s\<lparr>variant_name_manager := v\<rparr>"
  by (rule exI[of _ "variant_name_manager s"]) simp

lemma set_last_results_frame:
  "\<exists>cd. snd (set_last_results ms s) = s\<lparr>coordinate_data := cd\<rparr>"
  by (auto simp: set_last_results_def Let_def split: option.splits list.splits
      intro: ex_coordinate_data_upd)

lemma set_last_results_throughput:
  "get_throughput (coordinate_data (snd (set_last_results ms s))) c \<noteq> None \<Longrightarrow>
   get_throughput (coordinate_data s) c \<noteq> None \<or>
   (coordinate_to_measure s = Some c \<and> (\<exists>m. ms = Some [Some m]))"
  by (auto simp: set_last_results_def Let_def get_throughput_def increment_visit_count_def
      set_throughput_def split: option.splits list.splits if_splits)

lemma step_coordinate_data: "coordinate_data (snd (step K s)) = coordinate_data s"
  by (auto simp: step_def Let_def handle_invalid_last_results_def take_step_def
      pick_coordinate_to_initialize_def recreate_neighborhood_def determine_if_done_def
      split: sum.splits)

lemma step_triton_env: "urcg_triton_env (snd (step K s)) = urcg_triton_env s"
  by (auto simp: step_def Let_def handle_invalid_last_results_def take_step_def
      pick_coordinate_to_initialize_def recreate_neighborhood_def determine_if_done_def
      split: sum.splits)

lemma get_next_model_config_frame:
  "\<exists>v. snd (get_next_model_config K models i s) = s\<lparr>variant_name_manager := v\<rparr>"
  by (auto simp: get_next_model_config_def Let_def split: sum.splits option.splits prod.splits
      intro: ex_variant_name_manager_upd)

lemma get_next_model_run_config_frame:
  "\<exists>v. snd (get_next_model_run_config K models i s) = s\<lparr>variant_name_manager := v\<rparr>"
  using get_next_model_config_frame[of K models i s]
  by (auto simp: get_next_model_run_config_def split: sum.splits prod.splits)

lemma add_model_run_configs_frame:
  "\<exists>v. snd (add_model_run_configs K models idxs rc s) = s\<lparr>variant_name_manager := v\<rparr>"
proof (induction idxs arbitrary: rc s)
  case Nil
  show ?case by (simp add: ex_variant_name_manager_upd)
next
  case (Cons i idxs)
  obtain r s1 where r: "get_next_model_run_config K models i s = (r, s1)" by (cases "get_next_model_run_config K models i s")
  from get_next_model_run_config_frame[of K models i s] r obtain v1 where
    v1: "s1 = s\<lparr>variant_name_manager := v1\<rparr>" by auto
  show ?case
  proof (cases r)
    case (Inl e)
    with r v1 show ?thesis by auto
  next
    case (Inr mrc)
    from Cons.IH[of "add_model_run_config mrc rc" s1] obtain v where
      "snd (add_model_run_configs K models idxs (add_model_run_config mrc rc) s1) = s1\<lparr>variant_name_manager := v\<rparr>"
      by blast
    with r Inr v1 show ?thesis by auto
  qed
qed

lemma get_next_run_config_frame:
  "\<exists>v. snd (get_next_run_config K models s) = s\<lparr>variant_name_manager := v\<rparr>"
  unfolding get_next_run_config_def by (rule add_model_run_configs_frame)

lemma get_next_model_run_config_assembled:
  assumes "get_next_model_run_config K models i s = (Inr mrc, s1)"
  shows "i < length models \<and> assembled_for K (coordinate_to_measure s) (models ! i) i mrc"
proof -
  from assms obtain mc where mc: "get_next_model_config K models i s = (Inr mc, s1)"
    by (auto simp: get_next_model_run_config_def split: sum.splits prod.splits if_splits)
  from get_next_model_config_frame[of K models i s] mc
  have ctm: "coordinate_to_measure s1 = coordinate_to_measure s" by auto
  from mc obtain dv mbs ic where dv: "get_coordinate_values K (coordinate_to_measure s) i = Inr dv"
    "dv ''max_batch_size'' = Some mbs" "dv ''instance_count'' = Some ic" "i < length models"
    and mceq: "mc = fst (make_model_config K
                 \<lparr>pc_dynamic_batching = [], pc_max_batch_size = mbs,
                  pc_instance_group =
                    [\<lparr>ig_count = ic, ig_kind = ''KIND_GPU'', ig_rate_limiter_priority = 1\<rparr>]\<rparr>
                 (models ! i) (variant_name_manager s))"
    by (auto simp: get_next_model_config_def Let_def split: sum.splits option.splits prod.splits if_splits)
  from assms mc obtain pac where pac:
    "get_next_perf_analyzer_config K models (get_field_name K mc) i s1 = Inr pac"
    "mrc = ModelRunConfig (model_name (models ! i)) mc pac"
    by (auto simp: get_next_model_run_config_def split: sum.splits prod.splits if_splits)
  from pac(1) dv(1) ctm obtain conc where conc: "dv ''concurrency'' = Some conc"
    "pac = update_config K (perf_analyzer_flags (models ! i))
            (update_config K (perf_config_params (get_field_name K mc) conc) (new_PerfAnalyzerConfig K))"
    by (auto simp: get_next_perf_analyzer_config_def split: sum.splits option.splits if_splits)
  show ?thesis
    unfolding assembled_for_def using dv conc pac(2) mceq by auto
qed

lemma add_model_run_configs_assembled:
  assumes "add_model_run_configs K models idxs rc0 s = (Inr rc, s')"
  shows "rc_triton_env rc = rc_triton_env rc0 \<and>
         (\<exists>new. model_run_configs rc = model_run_configs rc0 @ new \<and>
            list_all2 (\<lambda>i mrc. i < length models \<and> assembled_for K (coordinate_to_measure s) (models ! i) i mrc) idxs new)"
  using assms
proof (induction idxs arbitrary: rc0 s)
  case Nil
  then show ?case by simp
next
  case (Cons i idxs)
  from Cons.prems obtain mrc s1 where 1: "get_next_model_run_config K models i s = (Inr mrc, s1)"
    and 2: "add_model_run_configs K models idxs (add_model_run_config mrc rc0) s1 = (Inr rc, s')"
    by (auto split: sum.splits prod.splits)
  from get_next_model_run_config_frame[of K models i s] 1
  have ctm: "coordinate_to_measure s1 = coordinate_to_measure s" by auto
  from Cons.IH[OF 2] obtain new where new:
    "rc_triton_env rc = rc_triton_env (add_model_run_config mrc rc0)"
    "model_run_configs rc = model_run_configs (add_model_run_config mrc rc0) @ new"
    "list_all2 (\<lambda>i mrc. i < length models \<and> assembled_for K (coordinate_to_measure s1) (models ! i) i mrc) idxs new"
    by blast
  from get_next_model_run_config_assembled[OF 1] new ctm
  show ?case
    by (intro conjI exI[of _ "mrc # new"]) (simp_all add: add_model_run_config_def)
qed

lemma get_next_run_config_assembled:
  assumes "get_next_run_config K models s = (Inr rc, s')"
  shows "rc_triton_env rc = urcg_triton_env s \<and>
         list_all2 (\<lambda>i mrc. assembled_for K (coordinate_to_measure s) (models ! i) i mrc)
                   [0..<length models] (model_run_configs rc)"
proof -
  from add_model_run_configs_assembled[OF assms[unfolded get_next_run_config_def]]
  have "rc_triton_env rc = urcg_triton_env s"
    "list_all2 (\<lambda>i mrc. i < length models \<and> assembled_for K (coordinate_to_measure s) (models ! i) i mrc)
                   [0..<length models] (model_run_configs rc)"
    by auto
  then show ?thesis by (auto elim: list_all2_mono)
qed

lemma step_invalid:
  assumes "get_last_results s = Inr None"
  shows "fst (step K s) = Returned \<and>
     coordinate_to_measure (snd (step K s)) =
       nbhd_get_nearest_unvisited_neighbor K (neighborhood s) (coordinate_data s) (coordinate_to_measure s) \<and>
     current_coordinate (snd (step K s)) = current_coordinate s \<and>
     neighborhood (snd (step K s)) = neighborhood s"
  using assms by (simp add: step_def Let_def handle_invalid_last_results_def)

lemma set_last_results_assert:
  assumes "coordinate_to_measure s = Some c"
  shows "fst (set_last_results (Some (Some m # rest)) s) = (if rest = [] then Returned else Raised AssertionError) \<and>
     (rest \<noteq> [] \<longrightarrow> throughputs (coordinate_data (snd (set_last_results (Some (Some m # rest)) s))) = throughputs (coordinate_data s)) \<and>
     (rest = [] \<longrightarrow> get_throughput (coordinate_data (snd (set_last_results (Some (Some m # rest)) s))) c = Some (perf_throughput m)) \<and>
     fst (set_last_results None s) = Returned \<and>
     fst (set_last_results (Some (None # rest')) s) = Returned"
  using assms
  by (simp add: set_last_results_def Let_def get_throughput_def set_throughput_def increment_visit_count_def)

lemma never_stops:
  "fst (get_configs_resume K models s) \<noteq> StopIteration \<and> fst (get_configs_start K models s) \<noteq> StopIteration"
  by (auto simp: get_configs_resume_def get_configs_start_def split: prod.splits sum.splits outcome.splits)

lemma pull_env:
  "get_configs_start K models s = (Yield rc, s') \<Longrightarrow> rc_triton_env rc = urcg_triton_env s \<and> urcg_triton_env s' = urcg_triton_env s"
  "get_configs_resume K models s = (Yield rc, s') \<Longrightarrow> rc_triton_env rc = urcg_triton_env s \<and> urcg_triton_env s' = urcg_triton_env s"
proof -
  assume "get_configs_start K models s = (Yield rc, s')"
  then have a: "get_next_run_config K models (s\<lparr>generator_started := True\<rparr>) = (Inr rc, s')"
    by (auto simp: get_configs_start_def split: prod.splits sum.splits)
  from get_next_run_config_frame[of K models "s\<lparr>generator_started := True\<rparr>"] a
  have "urcg_triton_env s' = urcg_triton_env s" by auto
  with get_next_run_config_assembled[OF a]
  show "rc_triton_env rc = urcg_triton_env s \<and> urcg_triton_env s' = urcg_triton_env s" by simp
next
  assume "get_configs_resume K models s = (Yield rc, s')"
  then obtain s1 where s1: "step K s = (Returned, s1)" and a: "get_next_run_config K models s1 = (Inr rc, s')"
    by (auto simp: get_configs_resume_def split: prod.splits sum.splits outcome.splits)
  from step_triton_env[of K s] s1 have e1: "urcg_triton_env s1 = urcg_triton_env s" by simp
  from get_next_run_config_frame[of K models s1] a
  have "urcg_triton_env s' = urcg_triton_env s1" by auto
  with get_next_run_config_assembled[OF a] e1
  show "rc_triton_env rc = urcg_triton_env s \<and> urcg_triton_env s' = urcg_triton_env s" by simp
qed

lemma fold_set_last_results_env:
  "urcg_triton_env (fold (\<lambda>ms s'. snd (set_last_results ms s')) mss s) = urcg_triton_env s"
proof (induction mss arbitrary: s)
  case Nil
  show ?case by simp
next
  case (Cons ms mss)
  from set_last_results_frame[of ms s] have "urcg_triton_env (snd (set_last_results ms s)) = urcg_triton_env s"
    by auto
  with Cons.IH[of "snd (set_last_results ms s)"] show ?case by simp
qed

lemma get_configs_env:
  "rc \<in> set (fst (get_configs K models consumer pulls k s)) \<Longrightarrow> rc_triton_env rc = urcg_triton_env s"
proof (induction pulls arbitrary: k s)
  case 0
  then show ?case by simp
next
  case (Suc pulls)
  let ?p = "if k = 0 then get_configs_start K models s else get_configs_resume K models s"
  obtain r s1 where p: "?p = (r, s1)" by (cases ?p)
  show ?case
  proof (cases r)
    case (Yield config)
    with p have e: "rc_triton_env config = urcg_triton_env s \<and> urcg_triton_env s1 = urcg_triton_env s"
      using pull_env[of K models s config s1] by (auto split: if_splits)
    let ?s2 = "fold (\<lambda>ms s'. snd (set_last_results ms s')) (consumer k) s1"
    have e2: "urcg_triton_env ?s2 = urcg_triton_env s" using e by (simp add: fold_set_last_results_env)
    from Suc.prems p Yield have "rc = config \<or> rc \<in> set (fst (get_configs K models consumer pulls (Suc k) ?s2))"
      by (auto simp: Let_def split: prod.splits)
    with Suc.IH[of "Suc k" ?s2] e e2 show ?thesis by auto
  next
    case StopIteration
    with Suc.prems p show ?thesis by auto
  next
    case (Raise e)
    with Suc.prems p show ?thesis by auto
  qed
qed

section \<open>The claims\<close>

subsection \<open>Composite enumerator\<close>

text \<open>
  C1, as stated, fails: feedback supplied for a RunConfig, which is produced at the
  deepest depth, does not reach only the sub-enumerator of that depth. With two models
  and one measurement reported for the first RunConfig (produced at depth 1), the
  sub-enumerator of depth 0 is forwarded that measurement as well.
\<close>

theorem feedback_reaches_only_producing_depth_counterexample:
  "\<not> reaches_only_depth 1 (traversal_log single_profile_config example_models example_consumer)"
  by (simp add: reaches_only_depth_def traversal_log_def run_RunConfigGenerator_def
      RunConfigGenerator_init_def determine_triton_server_env_def example_models_def
      example_model_def single_profile_config_def example_consumer_def rcg_get_configs_def
      get_next_config_def generate_subset.simps Let_def new_ModelRunConfigGenerator_def
      mrcg_get_configs_def mrcg_set_last_results_def record_event_def yield_run_config_def
      make_run_config_def add_model_run_config_def consumer_call_def rcg_set_last_results_def
      send_results_to_generator_def rcg_raise_def)

text \<open>
  C1, amended: \<open>set_last_results\<close> appends the feedback to the buffer of every depth;
  in every traversal the buffer of a depth has been forwarded to that depth's
  sub-enumerator and is empty whenever that sub-enumerator is asked for its next
  configuration; and when the traversal ends every buffer has been forwarded and is
  empty.
\<close>

theorem feedback_buffered_everywhere_forwarded_before_advance:
  assumes "determine_triton_server_env models = Inr env"
    and "length (curr_results s) = rcg_num_models s"
  shows "rcg_set_last_results (Some ms) s =
           (Returned, s\<lparr>curr_results := map (\<lambda>b. b @ ms) (curr_results s)\<rparr>) \<and>
         feedback_before_advance None (traversal_log cfg models consumer) \<and>
         traversal_buffers cfg models consumer = replicate (length models) []"
proof -
  from traversal_result[OF assms(1), of cfg consumer]
  have "feedback_before_advance None (traversal_log cfg models consumer) \<and>
        traversal_buffers cfg models consumer = replicate (length models) []"
    by (auto simp: traversal_log_def traversal_buffers_def)
  with rcg_set_last_results_every_depth[OF assms(2)] show ?thesis by simp
qed

theorem feedback_buffered_everywhere_forwarded_before_advance_witness:
  "determine_triton_server_env example_models = Inr Map.empty \<and>
   length (curr_results example_rcg_state) = rcg_num_models example_rcg_state \<and>
   rcg_set_last_results (Some [Some (Measurement 7)]) example_rcg_state =
     (Returned,
      example_rcg_state\<lparr>curr_results := [[Some (Measurement 7)], [Some (Measurement 7)]]\<rparr>) \<and>
   feedback_before_advance None
     (traversal_log example_profile_config example_models example_consumer) \<and>
   traversal_buffers example_profile_config example_models example_consumer = [[], []]"
proof -
  have h1: "determine_triton_server_env example_models = Inr Map.empty"
    by (simp add: determine_triton_server_env_def example_models_def example_model_def)
  have h2: "length (curr_results example_rcg_state) = rcg_num_models example_rcg_state"
    by (simp add: example_rcg_state_def)
  have cr: "curr_results example_rcg_state = [[], []]"
    by (simp add: example_rcg_state_def)
  from feedback_buffered_everywhere_forwarded_before_advance[OF h1 h2,
      of "[Some (Measurement 7)]" example_profile_config example_consumer]
  show ?thesis using h1 h2 by (simp add: cr example_models_def)
qed

text \<open>
  C3: once construction succeeded, the first RunConfig produced is the all-default
  combination, and the number of RunConfigs produced is 1 plus the product of the
  per-model configuration counts.
\<close>

theorem first_is_all_default_and_count:
  assumes "determine_triton_server_env models = Inr env"
  shows "hd (produced_run_configs cfg models consumer) =
           RunConfig env (map (\<lambda>m. Some (default_configuration cfg m)) models) \<and>
         length (produced_run_configs cfg models consumer) =
           1 + prod_list (map (\<lambda>m. length (legal_configurations cfg m)) models)"
proof -
  from traversal_result[OF assms, of cfg consumer]
  have "produced_run_configs cfg models consumer =
          RunConfig env (map (\<lambda>m. Some (default_configuration cfg m)) models) #
          map (\<lambda>combo. RunConfig env (map Some combo))
              (product_lists (map (legal_configurations cfg) models))"
    by (auto simp: produced_run_configs_def traversal_log_def)
  then show ?thesis by (simp add: length_product_lists_map)
qed

theorem first_is_all_default_and_count_witness:
  "determine_triton_server_env example_models = Inr Map.empty \<and>
   hd (produced_run_configs example_profile_config example_models example_consumer) =
     RunConfig Map.empty [Some 0, Some 0] \<and>
   length (produced_run_configs example_profile_config example_models example_consumer) = 5"
proof -
  have h: "determine_triton_server_env example_models = Inr Map.empty"
    by (simp add: determine_triton_server_env_def example_models_def example_model_def)
  from first_is_all_default_and_count[OF h, of example_profile_config example_consumer]
  show ?thesis using h by (simp add: example_models_def example_profile_config_def)
qed

text \<open>
  C4: for a non-empty list of models, if all environments equal the one of model 0,
  both constructors succeed with that environment and every RunConfig produced
  carries it; if some environment differs, both constructors raise
  TritonModelAnalyzerException and nothing is produced.
\<close>

theorem shared_server_environment:
  assumes "models \<noteq> []"
  shows "((\<forall>m \<in> set models. triton_server_environment m = triton_server_environment (hd models)) \<longrightarrow>
            determine_triton_server_env models = Inr (triton_server_environment (hd models)) \<and>
            (\<exists>s. RunConfigGenerator_init cfg models = Inr s \<and>
                 rcg_triton_env s = triton_server_environment (hd models)) \<and>
            produced_run_configs cfg models consumer \<noteq> [] \<and>
            (\<forall>rc \<in> set (produced_run_configs cfg models consumer).
               rc_triton_env rc = triton_server_environment (hd models)) \<and>
            (\<exists>u. UndirectedRunConfigGenerator_init K models = Inr u \<and>
                 urcg_triton_env u = triton_server_environment (hd models) \<and>
                 (\<forall>pulls. \<forall>rc \<in> set (fst (get_configs K models consumer' pulls 0 u)).
                    rc_triton_env rc = triton_server_environment (hd models)))) \<and>
         ((\<exists>m \<in> set models. triton_server_environment m \<noteq> triton_server_environment (hd models)) \<longrightarrow>
            determine_triton_server_env models = Inl TritonModelAnalyzerException \<and>
            RunConfigGenerator_init cfg models = Inl TritonModelAnalyzerException \<and>
            run_RunConfigGenerator cfg models consumer = Inl TritonModelAnalyzerException \<and>
            produced_run_configs cfg models consumer = [] \<and>
            UndirectedRunConfigGenerator_init K models = Inl TritonModelAnalyzerException)"
proof (intro conjI impI)
  let ?e = "triton_server_environment (hd models)"
  assume eq: "\<forall>m \<in> set models. triton_server_environment m = ?e"
  have "determine_triton_server_env models =
          (if \<forall>m \<in> set models. triton_server_environment m = ?e then Inr ?e
           else Inl TritonModelAnalyzerException)"
    using assms by (subst determine_triton_server_env_eq) (rule if_not_P)
  also have "\<dots> = Inr ?e" using eq by (rule if_P)
  finally show d: "determine_triton_server_env models = Inr ?e" .
  then show "\<exists>s. RunConfigGenerator_init cfg models = Inr s \<and> rcg_triton_env s = ?e"
    by (simp add: RunConfigGenerator_init_def)
  from traversal_result[OF d, of cfg consumer]
  have p: "produced_run_configs cfg models consumer =
          RunConfig ?e (map (\<lambda>m. Some (default_configuration cfg m)) models) #
          map (\<lambda>combo. RunConfig ?e (map Some combo))
              (product_lists (map (legal_configurations cfg) models))"
    by (auto simp: produced_run_configs_def traversal_log_def)
  then show "produced_run_configs cfg models consumer \<noteq> []" by simp
  from p show "\<forall>rc \<in> set (produced_run_configs cfg models consumer). rc_triton_env rc = ?e"
    by auto
  from d obtain u where u: "UndirectedRunConfigGenerator_init K models = Inr u" "urcg_triton_env u = ?e"
    by (simp add: UndirectedRunConfigGenerator_init_def)
  have env: "rc_triton_env rc = ?e"
    if "rc \<in> set (fst (get_configs K models consumer' pulls 0 u))" for rc pulls
    using get_configs_env[OF that] u(2) by simp
  show "\<exists>u. UndirectedRunConfigGenerator_init K models = Inr u \<and> urcg_triton_env u = ?e \<and>
          (\<forall>pulls. \<forall>rc \<in> set (fst (get_configs K models consumer' pulls 0 u)). rc_triton_env rc = ?e)"
    by (intro exI[of _ u] conjI allI ballI) (simp_all add: u env)
next
  let ?e = "triton_server_environment (hd models)"
  assume ne: "\<exists>m \<in> set models. triton_server_environment m \<noteq> ?e"
  then have ne': "\<not> (\<forall>m \<in> set models. triton_server_environment m = ?e)" by blast
  have "determine_triton_server_env models =
          (if \<forall>m \<in> set models. triton_server_environment m = ?e then Inr ?e
           else Inl TritonModelAnalyzerException)"
    using assms by (subst determine_triton_server_env_eq) (rule if_not_P)
  also have "\<dots> = Inl TritonModelAnalyzerException" using ne' by (rule if_not_P)
  finally have d: "determine_triton_server_env models = Inl TritonModelAnalyzerException" .
  then show "determine_triton_server_env models = Inl TritonModelAnalyzerException" .
  from d show i: "RunConfigGenerator_init cfg models = Inl TritonModelAnalyzerException"
    by (simp add: RunConfigGenerator_init_def)
  then show r: "run_RunConfigGenerator cfg models consumer = Inl TritonModelAnalyzerException"
    by (simp add: run_RunConfigGenerator_def)
  then show "produced_run_configs cfg models consumer = []"
    by (simp add: produced_run_configs_def traversal_log_def)
  from d show "UndirectedRunConfigGenerator_init K models = Inl TritonModelAnalyzerException"
    by (simp add: UndirectedRunConfigGenerator_init_def)
qed

theorem shared_server_environment_witness:
  "example_models \<noteq> [] \<and>
   determine_triton_server_env example_models
     = Inr (triton_server_environment (hd example_models)) \<and>
   produced_run_configs example_profile_config example_models example_consumer \<noteq> [] \<and>
   mismatched_models \<noteq> [] \<and>
   (\<exists>m \<in> set mismatched_models.
      triton_server_environment m \<noteq> triton_server_environment (hd mismatched_models)) \<and>
   RunConfigGenerator_init example_profile_config mismatched_models
     = Inl TritonModelAnalyzerException \<and>
   produced_run_configs example_profile_config mismatched_models example_consumer = [] \<and>
   UndirectedRunConfigGenerator_init example_collaborators mismatched_models
     = (Inl TritonModelAnalyzerException :: error + (unit, nat) urcg_state)"
proof -
  have n1: "example_models \<noteq> []" and n2: "mismatched_models \<noteq> []"
    by (simp_all add: example_models_def mismatched_models_def)
  have e1: "\<forall>m \<in> set example_models.
      triton_server_environment m = triton_server_environment (hd example_models)"
    by (simp add: example_models_def example_model_def)
  have e2: "\<exists>m \<in> set mismatched_models.
      triton_server_environment m \<noteq> triton_server_environment (hd mismatched_models)"
    by (simp add: mismatched_models_def example_model_def)
  note t1 = shared_server_environment[OF n1, of example_profile_config example_consumer
      example_collaborators example_consumer, THEN conjunct1, THEN mp, OF e1]
  note t2 = shared_server_environment[OF n2, of example_profile_config example_consumer
      example_collaborators example_consumer, THEN conjunct2, THEN mp, OF e2]
  have a1: "determine_triton_server_env example_models
     = Inr (triton_server_environment (hd example_models))"
    using t1 by (rule conjunct1)
  have a2: "produced_run_configs example_profile_config example_models example_consumer \<noteq> []"
    using t1 by (elim conjE)
  have b1: "RunConfigGenerator_init example_profile_config mismatched_models
     = Inl TritonModelAnalyzerException"
    using t2 by (elim conjE)
  have b2: "produced_run_configs example_profile_config mismatched_models example_consumer = []"
    using t2 by (elim conjE)
  have b3: "UndirectedRunConfigGenerator_init example_collaborators mismatched_models
     = (Inl TritonModelAnalyzerException :: error + (unit, nat) urcg_state)"
    using t2 by (elim conjE)
  show ?thesis
    by (intro conjI n1 n2 e2 a1 a2 b1 b2 b3)
qed

subsection \<open>Hill-climbing driver\<close>

text \<open>
  C2 states that the sequence yields nothing after a step whose new coordinate equals
  the center. The source sets \<open>_done\<close> on that step, but \<open>get_configs\<close> never reads
  it (nor calls \<open>_is_done\<close>). On a flat surface, after a valid measurement of the first
  RunConfig, the computed new coordinate equals the center, the pull that runs that
  step sets \<open>_done\<close> and yields a RunConfig all the same, and a consumer pulling four
  times receives four RunConfigs.
\<close>

theorem done_is_set_but_sequence_continues:
  "nbhd_calculate_new_coordinate example_collaborators (neighborhood measured_input)
     (coordinate_data measured_input) (get_magnitude example_collaborators measured_input)
     = current_coordinate measured_input \<and>
   fst (get_configs_resume example_collaborators [example_model ''a'' Map.empty] measured_input)
     = Yield (RunConfig Map.empty
                [ModelRunConfig ''a'' ''a'' (perf_config_params ''a'' (Num 8))]) \<and>
   urcg_done (snd (get_configs_resume example_collaborators [example_model ''a'' Map.empty]
                     measured_input)) \<and>
   length (fst (get_configs example_collaborators [example_model ''a'' Map.empty]
                  valid_feedback (Suc (Suc (Suc (Suc 0)))) 0 example_state)) = 4"
  by (simp add: measured_input_def example_collaborators_def example_model_def example_state_def
      valid_feedback_def get_configs_start_def get_configs_resume_def get_next_run_config_def
      get_next_model_run_config_def get_next_model_config_def get_next_perf_analyzer_config_def
      get_coordinate_values_def example_dimension_values_def add_model_run_config_def
      set_last_results_def Let_def step_def get_last_results_def take_step_def
      determine_if_done_def recreate_neighborhood_def get_magnitude_def get_radius_def
      get_throughput_def set_throughput_def get_visit_count_def increment_visit_count_def
      new_CoordinateData_def)

text \<open>
  C5: a call of \<open>set_last_results\<close> increments the visit count of the coordinate being
  measured by exactly 1, whatever the measurements are (also when the call raises), and
  leaves the other visit counts as they are.
\<close>

theorem visit_count_incremented_once:
  assumes "coordinate_to_measure s = Some c"
  shows "get_visit_count (coordinate_data (snd (set_last_results ms s))) c
           = get_visit_count (coordinate_data s) c + 1 \<and>
         (\<forall>c'. c' \<noteq> c \<longrightarrow>
            get_visit_count (coordinate_data (snd (set_last_results ms s))) c'
              = get_visit_count (coordinate_data s) c')"
  using assms by (rule set_last_results_visit)

theorem visit_count_incremented_once_witness:
  "coordinate_to_measure example_state = Some [0] \<and>
   get_visit_count (coordinate_data (snd (set_last_results (Some [None]) example_state))) [0] = 1 \<and>
   get_visit_count (coordinate_data (snd (set_last_results (Some [None]) example_state))) [1] = 0"
proof -
  have h: "coordinate_to_measure example_state = Some [0]"
    by (simp add: example_state_def)
  have z: "get_visit_count (coordinate_data example_state) c = 0" for c
    by (simp add: example_state_def get_visit_count_def new_CoordinateData_def)
  from visit_count_incremented_once[OF h, of "Some [None]"]
  show ?thesis using h by (simp add: z)
qed

text \<open>
  C6: a throughput is reported for a coordinate after \<open>set_last_results\<close> only if it
  was reported before, or the coordinate is the one being measured and the measurements
  are a list of one Measurement; \<open>_step\<close> and the production of a RunConfig leave
  the coordinate data as it is; a new driver reports no throughput.
\<close>

theorem throughput_only_after_valid_measurement:
  "(get_throughput (coordinate_data (snd (set_last_results ms s))) c \<noteq> None \<longrightarrow>
      get_throughput (coordinate_data s) c \<noteq> None \<or>
      (coordinate_to_measure s = Some c \<and> (\<exists>m. ms = Some [Some m]))) \<and>
   coordinate_data (snd (step K s)) = coordinate_data s \<and>
   coordinate_data (snd (get_next_run_config K models s)) = coordinate_data s \<and>
   coordinate_data (snd (get_configs_start K models s)) = coordinate_data s \<and>
   coordinate_data (snd (get_configs_resume K models s)) = coordinate_data s \<and>
   (UndirectedRunConfigGenerator_init K models = Inr s0 \<longrightarrow>
      get_throughput (coordinate_data s0) c = None)"
proof (intro conjI impI)
  assume "get_throughput (coordinate_data (snd (set_last_results ms s))) c \<noteq> None"
  then show "get_throughput (coordinate_data s) c \<noteq> None \<or>
      (coordinate_to_measure s = Some c \<and> (\<exists>m. ms = Some [Some m]))"
    by (rule set_last_results_throughput)
next
  show "coordinate_data (snd (step K s)) = coordinate_data s"
    by (rule step_coordinate_data)
next
  show n: "coordinate_data (snd (get_next_run_config K models s)) = coordinate_data s" for s
    using get_next_run_config_frame[of K models s] by auto
  show "coordinate_data (snd (get_configs_start K models s)) = coordinate_data s"
    using n[of "s\<lparr>generator_started := True\<rparr>"]
    by (auto simp: get_configs_start_def split: prod.splits sum.splits)
  show "coordinate_data (snd (get_configs_resume K models s)) = coordinate_data s"
    using n[of "snd (step K s)"] step_coordinate_data[of K s]
    by (auto simp: get_configs_resume_def split: prod.splits sum.splits outcome.splits)
next
  assume "UndirectedRunConfigGenerator_init K models = Inr s0"
  then show "get_throughput (coordinate_data s0) c = None"
    by (auto simp: UndirectedRunConfigGenerator_init_def get_throughput_def new_CoordinateData_def
        split: sum.splits)
qed

theorem throughput_only_after_valid_measurement_witness:
  "get_throughput (coordinate_data
      (snd (set_last_results (Some [Some (Measurement 100)]) example_state))) [0] \<noteq> None \<and>
   get_throughput (coordinate_data example_state) [0] = None \<and>
   coordinate_to_measure example_state = Some [0] \<and>
   UndirectedRunConfigGenerator_init example_collaborators [example_model ''a'' Map.empty]
     = Inr example_state"
proof -
  have a: "get_throughput (coordinate_data
      (snd (set_last_results (Some [Some (Measurement 100)]) example_state))) [0] \<noteq> None"
    by (simp add: example_state_def set_last_results_def Let_def get_throughput_def
        set_throughput_def increment_visit_count_def new_CoordinateData_def)
  have i: "UndirectedRunConfigGenerator_init example_collaborators [example_model ''a'' Map.empty]
     = Inr example_state"
    by (simp add: UndirectedRunConfigGenerator_init_def determine_triton_server_env_def
        example_model_def example_collaborators_def example_state_def get_starting_coordinate_def)
  note t = throughput_only_after_valid_measurement[of "Some [Some (Measurement 100)]"
      example_state "[0]" example_collaborators "[example_model ''a'' Map.empty]" example_state]
  from t have "get_throughput (coordinate_data example_state) [0] = None" using i by blast
  moreover from t a this have "coordinate_to_measure example_state = Some [0]" by blast
  ultimately show ?thesis using a i by blast
qed

text \<open>
  C7 states that the sequence ends when no coordinate is left to measure. In the
  source no pull ever ends the sequence: a pull yields or raises. At the exhausted
  input (the first RunConfig was reported as a failed run and the neighborhood has
  no unvisited neighbor) the pull sets \<open>_done\<close>, leaves no coordinate to measure,
  and raises instead of ending the sequence.
\<close>

theorem exhaustion_does_not_end_the_sequence:
  "fst (get_configs_start K models s) \<noteq> StopIteration \<and>
   fst (get_configs_resume K models s) \<noteq> StopIteration \<and>
   fst (get_configs_resume example_collaborators [example_model ''a'' Map.empty] exhausted_input)
     = Raise TypeError \<and>
   urcg_done (snd (get_configs_resume example_collaborators [example_model ''a'' Map.empty]
                     exhausted_input)) \<and>
   coordinate_to_measure
     (snd (get_configs_resume example_collaborators [example_model ''a'' Map.empty]
             exhausted_input)) = None"
proof -
  have "fst (get_configs_resume example_collaborators [example_model ''a'' Map.empty] exhausted_input)
     = Raise TypeError \<and>
   urcg_done (snd (get_configs_resume example_collaborators [example_model ''a'' Map.empty]
                     exhausted_input)) \<and>
   coordinate_to_measure
     (snd (get_configs_resume example_collaborators [example_model ''a'' Map.empty]
             exhausted_input)) = None"
    by (simp add: exhausted_input_def example_collaborators_def example_model_def
        example_state_def get_configs_start_def get_configs_resume_def get_next_run_config_def
        get_next_model_run_config_def get_next_model_config_def get_next_perf_analyzer_config_def
        get_coordinate_values_def example_dimension_values_def add_model_run_config_def
        set_last_results_def Let_def step_def get_last_results_def
        handle_invalid_last_results_def get_throughput_def increment_visit_count_def
        new_CoordinateData_def)
  with never_stops[of K models s] show ?thesis by simp
qed

text \<open>
  C8: when no throughput is stored for the coordinate just measured, \<open>_step\<close> makes
  the nearest unvisited neighbor of that coordinate in the current neighborhood the
  next coordinate to measure, and leaves the center and the neighborhood as they are.
\<close>

theorem invalid_result_falls_back_to_neighbor:
  assumes "get_last_results s = Inr None"
  shows "fst (step K s) = Returned \<and>
         coordinate_to_measure (snd (step K s)) =
           nbhd_get_nearest_unvisited_neighbor K (neighborhood s) (coordinate_data s)
             (coordinate_to_measure s) \<and>
         current_coordinate (snd (step K s)) = current_coordinate s \<and>
         neighborhood (snd (step K s)) = neighborhood s"
  using assms by (rule step_invalid)

theorem invalid_result_falls_back_to_neighbor_witness:
  "get_last_results example_state = Inr None \<and>
   coordinate_to_measure
     (snd (step (example_collaborators\<lparr>nbhd_get_nearest_unvisited_neighbor := (\<lambda>_ _ _. Some [1])\<rparr>)
             example_state)) = Some [1] \<and>
   current_coordinate
     (snd (step (example_collaborators\<lparr>nbhd_get_nearest_unvisited_neighbor := (\<lambda>_ _ _. Some [1])\<rparr>)
             example_state)) = [0]"
proof -
  have h: "get_last_results example_state = Inr None"
    by (simp add: get_last_results_def example_state_def get_throughput_def new_CoordinateData_def)
  have c: "current_coordinate example_state = [0]" by (simp add: example_state_def)
  from invalid_result_falls_back_to_neighbor[OF h,
      of "example_collaborators\<lparr>nbhd_get_nearest_unvisited_neighbor := (\<lambda>_ _ _. Some [1])\<rparr>"]
  show ?thesis using h c by simp
qed

text \<open>
  C9: a RunConfig produced for the coordinate to measure carries the shared server
  environment and holds one ModelRunConfig per model, in model order, each assembled
  from the dimension values of the coordinate for that model.
\<close>

theorem run_config_assembled_from_coordinate:
  assumes "get_next_run_config K models s = (Inr rc, s')"
  shows "rc_triton_env rc = urcg_triton_env s \<and>
         list_all2 (\<lambda>i mrc. assembled_for K (coordinate_to_measure s) (models ! i) i mrc)
                   [0..<length models] (model_run_configs rc)"
  using assms by (rule get_next_run_config_assembled)

theorem run_config_assembled_from_coordinate_witness:
  "get_next_run_config example_collaborators [example_model ''a'' Map.empty] example_state =
     (Inr (RunConfig Map.empty
             [ModelRunConfig ''a'' ''a'' (perf_config_params ''a'' (Num 8))]),
      example_state\<lparr>variant_name_manager := 1\<rparr>) \<and>
   list_all2 (\<lambda>i mrc. assembled_for example_collaborators (Some [0])
                        ([example_model ''a'' Map.empty] ! i) i mrc)
     [0..<length [example_model ''a'' Map.empty]]
     [ModelRunConfig ''a'' ''a'' (perf_config_params ''a'' (Num 8))]"
proof -
  have h: "get_next_run_config example_collaborators [example_model ''a'' Map.empty] example_state =
     (Inr (RunConfig Map.empty
             [ModelRunConfig ''a'' ''a'' (perf_config_params ''a'' (Num 8))]),
      example_state\<lparr>variant_name_manager := 1\<rparr>)"
    by (simp add: example_collaborators_def example_model_def example_state_def
        get_next_run_config_def get_next_model_run_config_def get_next_model_config_def
        get_next_perf_analyzer_config_def get_coordinate_values_def
        example_dimension_values_def add_model_run_config_def Let_def)
  have c: "coordinate_to_measure example_state = Some [0]" by (simp add: example_state_def)
  from run_config_assembled_from_coordinate[OF h]
  have "list_all2 (\<lambda>i mrc. assembled_for example_collaborators (coordinate_to_measure example_state)
                        ([example_model ''a'' Map.empty] ! i) i mrc)
     [0..<length [example_model ''a'' Map.empty]]
     (model_run_configs (RunConfig Map.empty
             [ModelRunConfig ''a'' ''a'' (perf_config_params ''a'' (Num 8))]))"
    by (rule conjunct2)
  then have l: "list_all2 (\<lambda>i mrc. assembled_for example_collaborators (Some [0])
                        ([example_model ''a'' Map.empty] ! i) i mrc)
     [0..<length [example_model ''a'' Map.empty]]
     [ModelRunConfig ''a'' ''a'' (perf_config_params ''a'' (Num 8))]"
    by (simp only: c run_config.sel)
  from h l show ?thesis by (rule conjI)
qed

text \<open>
  C10: with a coordinate to measure, a list whose first element is a Measurement is
  accepted exactly when it has length 1, and then its throughput is recorded; a longer
  such list fails the assertion and records no throughput; \<open>None\<close> and a list whose
  first element is \<open>None\<close> are accepted without asserting.
\<close>

theorem at_most_one_measurement:
  assumes "coordinate_to_measure s = Some c"
  shows "fst (set_last_results (Some (Some m # rest)) s)
           = (if rest = [] then Returned else Raised AssertionError) \<and>
         (rest \<noteq> [] \<longrightarrow>
            throughputs (coordinate_data (snd (set_last_results (Some (Some m # rest)) s)))
              = throughputs (coordinate_data s)) \<and>
         (rest = [] \<longrightarrow>
            get_throughput (coordinate_data (snd (set_last_results (Some (Some m # rest)) s))) c
              = Some (perf_throughput m)) \<and>
         fst (set_last_results None s) = Returned \<and>
         fst (set_last_results (Some (None # rest')) s) = Returned"
  using assms by (rule set_last_results_assert)

theorem at_most_one_measurement_witness:
  "coordinate_to_measure example_state = Some [0] \<and>
   fst (set_last_results (Some [Some (Measurement 100), Some (Measurement 90)]) example_state)
     = Raised AssertionError \<and>
   throughputs (coordinate_data
      (snd (set_last_results (Some [Some (Measurement 100), Some (Measurement 90)]) example_state)))
     = throughputs (coordinate_data example_state) \<and>
   fst (set_last_results (Some [Some (Measurement 100)]) example_state) = Returned \<and>
   get_throughput (coordinate_data
      (snd (set_last_results (Some [Some (Measurement 100)]) example_state))) [0] = Some 100"
proof -
  have h: "coordinate_to_measure example_state = Some [0]"
    by (simp add: example_state_def)
  from at_most_one_measurement[OF h, of "Measurement 100" "[Some (Measurement 90)]"]
    at_most_one_measurement[OF h, of "Measurement 100" "[]"]
  show ?thesis using h by simp
qed


end
